theory Spec2Isabelle
  imports Main "HOL-Library.AList" "HOL-Library.Sublist"
begin

section \<open>JavaScript values of a configuration document\<close>

text \<open>
  \<^verbatim>\<open>config-init.js\<close> reads a configuration file, evaluates its text to a JavaScript
  value, assigns two nested properties and writes the value back with
  \<^verbatim>\<open>JSON.stringify(config, null, 2)\<close>.

  The script does no arithmetic: of a Number it only asks whether it is truthy and how it
  prints. A finite non-zero Number is therefore carried by the text that the language's
  Number-to-String conversion gives for it; \<open>+0\<close> and \<open>-0\<close> (both falsy, both printed
  \<^verbatim>\<open>0\<close>) are the one value \<open>Zero\<close>.
\<close>

datatype jsnumber = NaN | PosInfinity | NegInfinity | Zero | Finite string

text \<open>
  Values are trees: the values a JSON-like literal evaluates to, with \<^verbatim>\<open>undefined\<close>
  added (the value of an empty file). Strings are the UTF-8 bytes of the JavaScript string.
  An object is the list of its own enumerable properties in the engine's enumeration order.
  An array is an object too, so it carries, next to its elements, the named properties that
  an assignment such as \<^verbatim>\<open>arr.defaults = {}\<close> adds to it. Functions, symbols, BigInts,
  accessors, frozen objects, objects with a prototype of their own and values that share a
  sub-object are outside this type.
\<close>

datatype jsval =
    JUndefined
  | JNull
  | JBool bool
  | JNumber jsnumber
  | JString string
  | JArray "jsval list" "(string \<times> jsval) list"
  | JObject "(string \<times> jsval) list"

datatype js_error = SyntaxError | ReferenceError | TypeError | SystemError string

text \<open>ToBoolean, as the operator \<^verbatim>\<open>!\<close> applies it.\<close>

fun truthy :: "jsval \<Rightarrow> bool" where
  "truthy JUndefined = False"
| "truthy JNull = False"
| "truthy (JBool b) = b"
| "truthy (JNumber n) = (n \<noteq> NaN \<and> n \<noteq> Zero)"
| "truthy (JString s) = (s \<noteq> [])"
| "truthy (JArray es ps) = True"
| "truthy (JObject ps) = True"

text \<open>The named own properties of a value that is an object; \<open>None\<close> for a primitive.\<close>

fun own_props :: "jsval \<Rightarrow> (string \<times> jsval) list option" where
  "own_props (JObject ps) = Some ps"
| "own_props (JArray es ps) = Some ps"
| "own_props v = None"

definition is_object :: "jsval \<Rightarrow> bool" where
  "is_object v = (own_props v \<noteq> None)"

text \<open>
  Reading \<^verbatim>\<open>v.k\<close>. On \<^verbatim>\<open>undefined\<close> and \<^verbatim>\<open>null\<close> it throws a TypeError; on any
  other primitive it is a lookup in the wrapper's prototype, which has none of the names the
  script reads, so the result is \<^verbatim>\<open>undefined\<close>; on an object it is the own property, or
  \<^verbatim>\<open>undefined\<close> when there is none. The script reads and writes only the names
  \<^verbatim>\<open>agents\<close>, \<^verbatim>\<open>defaults\<close>, \<^verbatim>\<open>sandbox\<close>, \<^verbatim>\<open>workspaceRoot\<close> and
  \<^verbatim>\<open>workspace\<close>: none is an array index, \<^verbatim>\<open>length\<close>, or a name inherited from
  a built-in prototype, and the two functions below are meant for such names.
\<close>

fun get_prop :: "jsval \<Rightarrow> string \<Rightarrow> js_error + jsval" where
  "get_prop JUndefined k = Inl TypeError"
| "get_prop JNull k = Inl TypeError"
| "get_prop (JObject ps) k = Inr (case map_of ps k of None \<Rightarrow> JUndefined | Some v \<Rightarrow> v)"
| "get_prop (JArray es ps) k = Inr (case map_of ps k of None \<Rightarrow> JUndefined | Some v \<Rightarrow> v)"
| "get_prop v k = Inr JUndefined"

text \<open>
  The assignment \<^verbatim>\<open>v.k = x\<close>. The script is an ES module (it uses \<^verbatim>\<open>import\<close>), so
  it runs in strict mode, where assigning a property of any primitive throws a TypeError.
  On an object an existing property keeps its place in the enumeration order and a new one
  goes to the end. The result is the object after the assignment.
\<close>

fun set_prop :: "jsval \<Rightarrow> string \<Rightarrow> jsval \<Rightarrow> js_error + jsval" where
  "set_prop (JObject ps) k x = Inr (JObject (AList.update k x ps))"
| "set_prop (JArray es ps) k x = Inr (JArray es (AList.update k x ps))"
| "set_prop v k x = Inl TypeError"

definition bind_err :: "js_error + 'a \<Rightarrow> ('a \<Rightarrow> js_error + 'b) \<Rightarrow> js_error + 'b" where
  "bind_err m f = (case m of Inl e \<Rightarrow> Inl e | Inr x \<Rightarrow> f x)"

text \<open>
  \<^verbatim>\<open>obj.k\<close> used as the target of a further access: \<open>f\<close> runs on the object that
  \<^verbatim>\<open>obj.k\<close> refers to and changes it in place. Values being trees, the change is
  stored back under \<open>k\<close>.
\<close>

definition in_prop :: "jsval \<Rightarrow> string \<Rightarrow> (jsval \<Rightarrow> js_error + jsval) \<Rightarrow> js_error + jsval" where
  "in_prop obj k f = bind_err (get_prop obj k) (\<lambda>v. bind_err (f v) (\<lambda>v'. set_prop obj k v'))"

section \<open>The patch (lines 24 to 36)\<close>

text \<open>\<^verbatim>\<open>if (!obj.k) obj.k = {};\<close>\<close>

definition ensure_field :: "jsval \<Rightarrow> string \<Rightarrow> js_error + jsval" where
  "ensure_field obj k =
     bind_err (get_prop obj k) (\<lambda>v. if \<not> truthy v then set_prop obj k (JObject []) else Inr obj)"

text \<open>
  Lines 24 to 26, under the comment \<^verbatim>\<open>// Ensure structure\<close>:
  \<^verbatim>\<open>
  if (!config.agents) config.agents = {};
  if (!config.agents.defaults) config.agents.defaults = {};
  if (!config.agents.defaults.sandbox) config.agents.defaults.sandbox = {};
  \<close>
\<close>

definition ensure_structure :: "jsval \<Rightarrow> js_error + jsval" where
  "ensure_structure config =
     bind_err (ensure_field config ''agents'') (\<lambda>c1.
     bind_err (in_prop c1 ''agents'' (\<lambda>a. ensure_field a ''defaults'')) (\<lambda>c2.
     in_prop c2 ''agents'' (\<lambda>a. in_prop a ''defaults'' (\<lambda>d. ensure_field d ''sandbox''))))"

text \<open>Line 31: \<^verbatim>\<open>config.agents.defaults.sandbox.workspaceRoot = hostWorkspaceRoot;\<close>\<close>

definition inject_workspaceRoot :: "string \<Rightarrow> jsval \<Rightarrow> js_error + jsval" where
  "inject_workspaceRoot hostWorkspaceRoot config =
     in_prop config ''agents'' (\<lambda>a. in_prop a ''defaults'' (\<lambda>d. in_prop d ''sandbox'' (\<lambda>s.
       set_prop s ''workspaceRoot'' (JString hostWorkspaceRoot))))"

text \<open>Line 36: \<^verbatim>\<open>config.agents.defaults.workspace = "/workspace";\<close>\<close>

definition set_workspace :: "jsval \<Rightarrow> js_error + jsval" where
  "set_workspace config =
     in_prop config ''agents'' (\<lambda>a. in_prop a ''defaults'' (\<lambda>d.
       set_prop d ''workspace'' (JString ''/workspace'')))"

text \<open>The three steps in the order of the script: the patch of a parsed document.\<close>

definition patch_config :: "string \<Rightarrow> jsval \<Rightarrow> js_error + jsval" where
  "patch_config hostWorkspaceRoot config =
     bind_err (ensure_structure config) (\<lambda>c3.
     bind_err (inject_workspaceRoot hostWorkspaceRoot c3) (\<lambda>c4.
     set_workspace c4))"

section \<open>JSON.stringify(config, null, 2)\<close>

text \<open>
  QuoteJSONString of the language standard: the quotation mark, the backslash and the
  control characters are escaped; every other byte stands for itself.
\<close>

definition hex_digit :: "nat \<Rightarrow> char" where
  "hex_digit n = ''0123456789abcdef'' ! n"

definition quote_char :: "char \<Rightarrow> string" where
  "quote_char c =
     (if c = CHR 0x08 then [CHR 0x5C, CHR ''b'']
      else if c = CHR 0x09 then [CHR 0x5C, CHR ''t'']
      else if c = CHR 0x0A then [CHR 0x5C, CHR ''n'']
      else if c = CHR 0x0C then [CHR 0x5C, CHR ''f'']
      else if c = CHR 0x0D then [CHR 0x5C, CHR ''r'']
      else if c = CHR 0x22 then [CHR 0x5C, CHR 0x22]
      else if c = CHR 0x5C then [CHR 0x5C, CHR 0x5C]
      else if (of_char c :: nat) < 32
        then [CHR 0x5C, CHR ''u'', CHR ''0'', CHR ''0'',
              hex_digit (of_char c div 16), hex_digit (of_char c mod 16)]
      else [c])"

definition QuoteJSONString :: "string \<Rightarrow> string" where
  "QuoteJSONString s = [CHR 0x22] @ concat (map quote_char s) @ [CHR 0x22]"

text \<open>A Number that is not finite is serialised as \<^verbatim>\<open>null\<close>.\<close>

fun number_text :: "jsnumber \<Rightarrow> string" where
  "number_text NaN = ''null''"
| "number_text PosInfinity = ''null''"
| "number_text NegInfinity = ''null''"
| "number_text Zero = ''0''"
| "number_text (Finite t) = t"

definition gap :: string where
  "gap = ''  ''"

fun join :: "string \<Rightarrow> string list \<Rightarrow> string" where
  "join sep [] = []"
| "join sep [x] = x"
| "join sep (x # y # ys) = x @ sep @ join sep (y # ys)"

text \<open>
  The closing steps of SerializeJSONObject and SerializeJSONArray with a non-empty gap:
  \<open>stepback\<close> is the indentation of the enclosing level.
\<close>

definition wrap :: "string \<Rightarrow> string \<Rightarrow> string \<Rightarrow> string list \<Rightarrow> string" where
  "wrap opening closing stepback partial =
     (if partial = [] then opening @ closing
      else opening @ [CHR 0x0A] @ (stepback @ gap)
           @ join ('','' @ [CHR 0x0A] @ (stepback @ gap)) partial
           @ [CHR 0x0A] @ stepback @ closing)"

text \<open>
  SerializeJSONProperty at indentation \<open>stepback\<close>; \<open>None\<close> is \<^verbatim>\<open>undefined\<close>. A
  property whose value is \<^verbatim>\<open>undefined\<close> is left out of an object and printed as
  \<^verbatim>\<open>null\<close> in an array; the named properties of an array are not printed.
\<close>

fun serialize :: "string \<Rightarrow> jsval \<Rightarrow> string option"
  and serialize_elements :: "string \<Rightarrow> jsval list \<Rightarrow> string list"
  and serialize_members :: "string \<Rightarrow> (string \<times> jsval) list \<Rightarrow> string list"
where
  "serialize stepback JUndefined = None"
| "serialize stepback JNull = Some ''null''"
| "serialize stepback (JBool b) = Some (if b then ''true'' else ''false'')"
| "serialize stepback (JNumber n) = Some (number_text n)"
| "serialize stepback (JString s) = Some (QuoteJSONString s)"
| "serialize stepback (JArray es ps) =
     Some (wrap ''['' '']'' stepback (serialize_elements (stepback @ gap) es))"
| "serialize stepback (JObject ps) =
     Some (wrap ''{'' ''}'' stepback (serialize_members (stepback @ gap) ps))"
| "serialize_elements indent [] = []"
| "serialize_elements indent (v # vs) =
     (case serialize indent v of None \<Rightarrow> ''null'' | Some t \<Rightarrow> t) # serialize_elements indent vs"
| "serialize_members indent [] = []"
| "serialize_members indent (p # ps) =
     (case serialize indent (snd p) of
        None \<Rightarrow> serialize_members indent ps
      | Some t \<Rightarrow> (QuoteJSONString (fst p) @ '': '' @ t) # serialize_members indent ps)"

definition JSON_stringify :: "jsval \<Rightarrow> string option" where
  "JSON_stringify v = serialize [] v"

section \<open>The process: environment, file system, console\<close>

record environment =
  OPENCLAW_CONFIG_PATH :: "string option"
  HOST_WORKSPACE_ROOT :: "string option"

text \<open>
  What the script can observe of the file system at one path: nothing, a directory, or a
  regular file. A regular file carries its content and the answers of the system to a read
  and to a write of it. A read gives the content or is refused with an error
  (\<^verbatim>\<open>EACCES\<close> on a file the process may not read). A write is accepted; or it is refused
  with the file untouched (\<^verbatim>\<open>EACCES\<close>, \<^verbatim>\<open>EROFS\<close>); or it breaks off with an error
  after the file was opened and leaves some other content (\<^verbatim>\<open>ENOSPC\<close>, \<^verbatim>\<open>EIO\<close>).
\<close>

datatype write_answer = Accepts | Refuses js_error | Breaks js_error string

datatype fs_entry = RegularFile string "js_error option" write_answer | Directory

type_synonym filesystem = "string \<Rightarrow> fs_entry option"

definition existsSync :: "filesystem \<Rightarrow> string \<Rightarrow> bool" where
  "existsSync fs p = (fs p \<noteq> None)"

fun readFileSync :: "filesystem \<Rightarrow> string \<Rightarrow> js_error + string" where
  "readFileSync fs p =
     (case fs p of
        None \<Rightarrow> Inl (SystemError ''ENOENT'')
      | Some Directory \<Rightarrow> Inl (SystemError ''EISDIR'')
      | Some (RegularFile content None w) \<Rightarrow> Inr content
      | Some (RegularFile content (Some e) w) \<Rightarrow> Inl e)"

text \<open>The error that \<^verbatim>\<open>fs.writeFileSync\<close> throws, if any, and the file system it leaves.\<close>

fun writeFileSync :: "filesystem \<Rightarrow> string \<Rightarrow> string \<Rightarrow> js_error option \<times> filesystem" where
  "writeFileSync fs p content =
     (case fs p of
        None \<Rightarrow> (None, fs(p \<mapsto> RegularFile content None Accepts))
      | Some Directory \<Rightarrow> (Some (SystemError ''EISDIR''), fs)
      | Some (RegularFile old r Accepts) \<Rightarrow> (None, fs(p \<mapsto> RegularFile content r Accepts))
      | Some (RegularFile old r (Refuses e)) \<Rightarrow> (Some e, fs)
      | Some (RegularFile old r (Breaks e left)) \<Rightarrow>
          (Some e, fs(p \<mapsto> RegularFile left r (Breaks e left))))"

text \<open>What a run does that can be seen from outside, in order: console output and calls of \<^verbatim>\<open>fs.writeFileSync\<close>.\<close>

datatype event =
    ConsoleWarn string
  | ConsoleError string "js_error option"
  | ConsoleLog string
  | WriteFile string string

text \<open>The exit status is \<open>None\<close> for a process that never ends.\<close>

record process_result =
  exit_status :: "nat option"
  disk :: filesystem
  events :: "event list"

text \<open>
  Line 21, \<^verbatim>\<open>(new Function('return ' + configRaw))()\<close>, runs the text of the file as
  JavaScript. The call returns a value, or throws (a SyntaxError when the text is no
  expression, or whatever the code throws), or the code ends the process itself
  (\<^verbatim>\<open>process.exit(7)\<close>), or it never returns. On the way the code can write to the
  console and to files. It can also change what the rest of the run does: replace a global
  such as \<^verbatim>\<open>JSON.stringify\<close>, set an exit code or an exit listener, leave a callback
  pending. \<open>aftermath\<close> is \<open>None\<close> when it left the rest of the run alone, and otherwise
  maps what the run would have ended with to what it ends with.
\<close>

datatype completion = Returned jsval | Threw js_error | Exited nat | Hangs

record evaluation =
  outcome :: completion
  eval_events :: "event list"
  eval_disk :: filesystem
  aftermath :: "(process_result \<Rightarrow> process_result) option"

definition finish :: "evaluation \<Rightarrow> process_result \<Rightarrow> process_result" where
  "finish ev r = (case aftermath ev of None \<Rightarrow> r | Some h \<Rightarrow> h r)"

text \<open>The handler of lines 45 to 48.\<close>

definition failed :: "filesystem \<Rightarrow> event list \<Rightarrow> js_error \<Rightarrow> process_result" where
  "failed fs evs e =
     \<lparr>exit_status = Some 1, disk = fs,
      events = evs @ [ConsoleError ''Failed to update config:'' (Some e)]\<rparr>"

text \<open>
  Lines 24 to 42 on the value that line 21 returned: \<open>fs\<close> and \<open>seen\<close> are the file
  system and the events so far. Where \<^verbatim>\<open>JSON.stringify\<close> gives \<^verbatim>\<open>undefined\<close>,
  \<^verbatim>\<open>fs.writeFileSync\<close> rejects its argument with a TypeError before it opens the file.
\<close>

definition patch_and_write ::
  "string \<Rightarrow> string \<Rightarrow> filesystem \<Rightarrow> event list \<Rightarrow> jsval \<Rightarrow> process_result" where
  "patch_and_write configPath hostWorkspaceRoot fs seen config =
     (let injecting = ConsoleLog (''Injecting sandbox.workspaceRoot = '' @ hostWorkspaceRoot);
          setting = ConsoleLog ''Setting internal workspace = /workspace''
      in
        (case ensure_structure config of Inl e \<Rightarrow> failed fs seen e | Inr c3 \<Rightarrow>
        (case inject_workspaceRoot hostWorkspaceRoot c3 of
           Inl e \<Rightarrow> failed fs (seen @ [injecting]) e | Inr c4 \<Rightarrow>
        (case set_workspace c4 of
           Inl e \<Rightarrow> failed fs (seen @ [injecting, setting]) e | Inr c5 \<Rightarrow>
        (case JSON_stringify c5 of
           None \<Rightarrow> failed fs (seen @ [injecting, setting]) TypeError | Some content \<Rightarrow>
        (case writeFileSync fs configPath content of
           (Some e, fs') \<Rightarrow>
             failed fs' (seen @ [injecting, setting, WriteFile configPath content]) e
         | (None, fs') \<Rightarrow>
             \<lparr>exit_status = Some 0, disk = fs',
              events = seen @ [injecting, setting, WriteFile configPath content,
                               ConsoleLog ''Config updated successfully.'']\<rparr>))))))"

text \<open>
  Lines 12 to 48. \<open>engine\<close> stands for the JavaScript engine behind line 21: from the
  function body and the file system it gives the evaluation.
\<close>

definition update_config ::
  "(string \<Rightarrow> filesystem \<Rightarrow> evaluation) \<Rightarrow> string \<Rightarrow> string \<Rightarrow> filesystem \<Rightarrow> process_result" where
  "update_config engine configPath hostWorkspaceRoot fs =
     (if \<not> existsSync fs configPath then
        \<lparr>exit_status = Some 0, disk = fs,
         events = [ConsoleError (''Config file not found at '' @ configPath) None]\<rparr>
      else
        (case readFileSync fs configPath of
           Inl e \<Rightarrow> failed fs [] e
         | Inr configRaw \<Rightarrow>
             (let ev = engine (''return '' @ configRaw) fs in
              case outcome ev of
                Exited n \<Rightarrow>
                  finish ev
                    \<lparr>exit_status = Some n, disk = eval_disk ev, events = eval_events ev\<rparr>
              | Hangs \<Rightarrow>
                  \<lparr>exit_status = None, disk = eval_disk ev, events = eval_events ev\<rparr>
              | Threw e \<Rightarrow> finish ev (failed (eval_disk ev) (eval_events ev) e)
              | Returned config \<Rightarrow>
                  finish ev
                    (patch_and_write configPath hostWorkspaceRoot (eval_disk ev)
                       (eval_events ev) config))))"

text \<open>Lines 4 to 10, then the rest. An environment variable is falsy when unset or empty.\<close>

definition resolve_configPath :: "environment \<Rightarrow> string" where
  "resolve_configPath env =
     (case OPENCLAW_CONFIG_PATH env of
        None \<Rightarrow> ''/root/.openclaw/openclaw.json''
      | Some p \<Rightarrow> if p = [] then ''/root/.openclaw/openclaw.json'' else p)"

definition skipped :: "filesystem \<Rightarrow> process_result" where
  "skipped fs =
     \<lparr>exit_status = Some 0, disk = fs,
      events = [ConsoleWarn ''HOST_WORKSPACE_ROOT not set. Skipping sandbox workspaceRoot injection.'']\<rparr>"

definition config_init ::
  "(string \<Rightarrow> filesystem \<Rightarrow> evaluation) \<Rightarrow> environment \<Rightarrow> filesystem \<Rightarrow> process_result" where
  "config_init engine env fs =
     (let configPath = resolve_configPath env in
      case HOST_WORKSPACE_ROOT env of
        None \<Rightarrow> skipped fs
      | Some hostWorkspaceRoot \<Rightarrow>
          if hostWorkspaceRoot = [] then skipped fs
          else update_config engine configPath hostWorkspaceRoot fs)"

section \<open>Notions used to state the properties\<close>

text \<open>
  \<open>field v k\<close> is the value of the named own property \<open>k\<close> of \<open>v\<close>, and
  \<^verbatim>\<open>undefined\<close> when \<open>v\<close> has none or is a primitive; \<open>with_prop v k x\<close> is the
  object \<open>v\<close> with its property \<open>k\<close> holding \<open>x\<close>.
\<close>

definition field :: "jsval \<Rightarrow> string \<Rightarrow> jsval" where
  "field v k =
     (case own_props v of
        None \<Rightarrow> JUndefined
      | Some ps \<Rightarrow> (case map_of ps k of None \<Rightarrow> JUndefined | Some x \<Rightarrow> x))"

fun with_prop :: "jsval \<Rightarrow> string \<Rightarrow> jsval \<Rightarrow> jsval" where
  "with_prop (JObject ps) k x = JObject (AList.update k x ps)"
| "with_prop (JArray es ps) k x = JArray es (AList.update k x ps)"
| "with_prop v k x = v"

text \<open>The value itself when it is truthy, an empty mapping otherwise.\<close>

definition kept_or_empty :: "jsval \<Rightarrow> jsval" where
  "kept_or_empty v = (if truthy v then v else JObject [])"

text \<open>A truthy value that is not an object: \<^verbatim>\<open>true\<close>, a non-zero number, a non-empty string.\<close>

definition truthy_primitive :: "jsval \<Rightarrow> bool" where
  "truthy_primitive v = (truthy v \<and> \<not> is_object v)"

text \<open>
  A document the patch accepts: an object in which none of \<^verbatim>\<open>agents\<close>,
  \<^verbatim>\<open>agents.defaults\<close> and \<^verbatim>\<open>agents.defaults.sandbox\<close> holds a truthy primitive.
  \<open>rejected_by_patch\<close> is the complement, in the words of the implicit claim about
  TypeErrors.
\<close>

definition rejected_by_patch :: "jsval \<Rightarrow> bool" where
  "rejected_by_patch config =
     (\<not> is_object config \<or>
      truthy_primitive (field config ''agents'') \<or>
      truthy_primitive (field (field config ''agents'') ''defaults'') \<or>
      truthy_primitive (field (field (field config ''agents'') ''defaults'') ''sandbox''))"

definition valid_document :: "jsval \<Rightarrow> bool" where
  "valid_document D = (\<not> rejected_by_patch D)"

text \<open>
  The value under a path of property names, when every name on the way is an own property
  of an object.
\<close>

fun lookup_path :: "jsval \<Rightarrow> string list \<Rightarrow> jsval option" where
  "lookup_path v [] = Some v"
| "lookup_path v (k # ks) =
     (case own_props v of
        None \<Rightarrow> None
      | Some ps \<Rightarrow> (case map_of ps k of None \<Rightarrow> None | Some w \<Rightarrow> lookup_path w ks))"

definition sandbox_path :: "string list" where
  "sandbox_path = [''agents'', ''defaults'', ''sandbox'']"

definition workspaceRoot_path :: "string list" where
  "workspaceRoot_path = [''agents'', ''defaults'', ''sandbox'', ''workspaceRoot'']"

definition workspace_path :: "string list" where
  "workspace_path = [''agents'', ''defaults'', ''workspace'']"

text \<open>
  A path is on the patch path when it leads to one of the two assigned properties, through
  it, or into the value it held before.
\<close>

definition on_patch_path :: "string list \<Rightarrow> bool" where
  "on_patch_path p =
     (prefix p workspaceRoot_path \<or> prefix workspaceRoot_path p \<or>
      prefix p workspace_path \<or> prefix workspace_path p)"

text \<open>The document that the patch leaves for a valid document, written out.\<close>

definition patched :: "string \<Rightarrow> jsval \<Rightarrow> jsval" where
  "patched R D =
     (let a = kept_or_empty (field D ''agents'');
          d = kept_or_empty (field a ''defaults'');
          s = kept_or_empty (field d ''sandbox'')
      in with_prop D ''agents''
           (with_prop a ''defaults''
             (with_prop (with_prop d ''sandbox'' (with_prop s ''workspaceRoot'' (JString R)))
                ''workspace'' (JString ''/workspace''))))"

definition host_root_given :: "environment \<Rightarrow> bool" where
  "host_root_given env =
     (case HOST_WORKSPACE_ROOT env of None \<Rightarrow> False | Some h \<Rightarrow> h \<noteq> [])"

fun is_write :: "event \<Rightarrow> bool" where
  "is_write (WriteFile p t) = True"
| "is_write e = False"

text \<open>A run is successful when it reaches line 42.\<close>

definition successful :: "process_result \<Rightarrow> bool" where
  "successful r = (ConsoleLog ''Config updated successfully.'' \<in> set (events r))"

text \<open>
  An evaluation that does nothing but return, throw, end the process or hang: it writes
  nothing to the console or to files and leaves the rest of the run alone.
\<close>

definition no_side_effects :: "filesystem \<Rightarrow> evaluation \<Rightarrow> bool" where
  "no_side_effects fs ev = (eval_events ev = [] \<and> eval_disk ev = fs \<and> aftermath ev = None)"

text \<open>Parsing, as the specification has it: the text gives a value or an error, and nothing else happens.\<close>

definition parses_to :: "filesystem \<Rightarrow> evaluation \<Rightarrow> jsval \<Rightarrow> bool" where
  "parses_to fs ev config = (outcome ev = Returned config \<and> no_side_effects fs ev)"

definition rejects_with :: "filesystem \<Rightarrow> evaluation \<Rightarrow> js_error \<Rightarrow> bool" where
  "rejects_with fs ev e = (outcome ev = Threw e \<and> no_side_effects fs ev)"

subsection \<open>Strict JSON\<close>

text \<open>
  The grammar of RFC 8259 on byte strings: insignificant whitespace, numbers, the inside of a
  string (no raw control character or quotation mark, the backslash only in an escape), and
  values, with the elements of an array and the members of an object.
\<close>

definition is_ws :: "string \<Rightarrow> bool" where
  "is_ws s = list_all (\<lambda>c. c = CHR '' '' \<or> c = CHR 0x09 \<or> c = CHR 0x0A \<or> c = CHR 0x0D) s"

definition is_digit :: "char \<Rightarrow> bool" where
  "is_digit c = (c \<in> set ''0123456789'')"

definition hex_value :: "char \<Rightarrow> nat option" where
  "hex_value c =
     (let n = (of_char c :: nat) in
      if 48 \<le> n \<and> n \<le> 57 then Some (n - 48)
      else if 97 \<le> n \<and> n \<le> 102 then Some (n - 87)
      else if 65 \<le> n \<and> n \<le> 70 then Some (n - 55)
      else None)"

definition is_hex :: "char \<Rightarrow> bool" where
  "is_hex c = (hex_value c \<noteq> None)"

definition digits1 :: "string \<Rightarrow> bool" where
  "digits1 s = (s \<noteq> [] \<and> list_all is_digit s)"

definition json_int :: "string \<Rightarrow> bool" where
  "json_int s = (s = ''0'' \<or> (digits1 s \<and> hd s \<noteq> CHR ''0''))"

definition json_frac :: "string \<Rightarrow> bool" where
  "json_frac s = (s = [] \<or> (hd s = CHR ''.'' \<and> digits1 (tl s)))"

definition json_exp :: "string \<Rightarrow> bool" where
  "json_exp s =
     (s = [] \<or>
      ((hd s = CHR ''e'' \<or> hd s = CHR ''E'') \<and>
       (let r = tl s in
        digits1 (if r \<noteq> [] \<and> (hd r = CHR ''+'' \<or> hd r = CHR ''-'') then tl r else r))))"

definition json_number :: "string \<Rightarrow> bool" where
  "json_number s =
     (let u = (if s \<noteq> [] \<and> hd s = CHR ''-'' then tl s else s);
          m = takeWhile (\<lambda>c. c \<noteq> CHR ''e'' \<and> c \<noteq> CHR ''E'') u;
          x = dropWhile (\<lambda>c. c \<noteq> CHR ''e'' \<and> c \<noteq> CHR ''E'') u
      in json_int (takeWhile (\<lambda>c. c \<noteq> CHR ''.'') m) \<and>
         json_frac (dropWhile (\<lambda>c. c \<noteq> CHR ''.'') m) \<and> json_exp x)"

fun string_body :: "string \<Rightarrow> bool" where
  "string_body [] = True"
| "string_body (c # cs) =
     (if c = CHR 0x5C then
        (case cs of
           [] \<Rightarrow> False
         | e # r \<Rightarrow>
             if e \<in> set [CHR 0x22, CHR 0x5C, CHR ''/'', CHR ''b'', CHR ''f'', CHR ''n'', CHR ''r'', CHR ''t'']
             then string_body r
             else if e = CHR ''u'' then
               (case r of
                  h1 # h2 # h3 # h4 # r' \<Rightarrow>
                    is_hex h1 \<and> is_hex h2 \<and> is_hex h3 \<and> is_hex h4 \<and> string_body r'
                | _ \<Rightarrow> False)
             else False)
      else c \<noteq> CHR 0x22 \<and> 32 \<le> (of_char c :: nat) \<and> string_body cs)"



subsection \<open>The two-space layout of a document\<close>




definition indent :: "nat \<Rightarrow> string" where
  "indent d = replicate (2 * d) (CHR '' '')"



subsection \<open>The relaxed dialect\<close>

text \<open>
  Relaxed JSON in the words of the specification: JSON that tolerates comments and unquoted
  object keys. Comments count as whitespace; a member name is a JSON string or an identifier.
\<close>

inductive relaxed_ws :: "string \<Rightarrow> bool" where
  no_ws: "relaxed_ws []"
| blank: "c = CHR '' '' \<or> c = CHR 0x09 \<or> c = CHR 0x0A \<or> c = CHR 0x0D \<Longrightarrow> relaxed_ws w \<Longrightarrow>
    relaxed_ws (c # w)"
| line_comment: "CHR 0x0A \<notin> set body \<Longrightarrow> relaxed_ws w \<Longrightarrow>
    relaxed_ws (''//'' @ body @ [CHR 0x0A] @ w)"
| last_line_comment: "CHR 0x0A \<notin> set body \<Longrightarrow> relaxed_ws (''//'' @ body)"
| block_comment: "\<not> (\<exists>a b. body = a @ ''*/'' @ b) \<Longrightarrow> relaxed_ws w \<Longrightarrow>
    relaxed_ws (''/*'' @ body @ ''*/'' @ w)"

definition identifier_char :: "char \<Rightarrow> bool" where
  "identifier_char c =
     (c = CHR ''_'' \<or> c = CHR ''$'' \<or> is_digit c \<or>
      (97 \<le> (of_char c :: nat) \<and> (of_char c :: nat) \<le> 122) \<or>
      (65 \<le> (of_char c :: nat) \<and> (of_char c :: nat) \<le> 90))"

definition is_identifier :: "string \<Rightarrow> bool" where
  "is_identifier s = (s \<noteq> [] \<and> \<not> is_digit (hd s) \<and> list_all identifier_char s)"

inductive member_name :: "string \<Rightarrow> bool" where
  quoted_name: "string_body b \<Longrightarrow> member_name ([CHR 0x22] @ b @ [CHR 0x22])"
| unquoted_name: "is_identifier s \<Longrightarrow> member_name s"

inductive relaxed_value :: "string \<Rightarrow> bool"
  and relaxed_elements :: "string \<Rightarrow> bool"
  and relaxed_members :: "string \<Rightarrow> bool"
where
  rx_null: "relaxed_value ''null''"
| rx_true: "relaxed_value ''true''"
| rx_false: "relaxed_value ''false''"
| rx_number: "json_number t \<Longrightarrow> relaxed_value t"
| rx_string: "string_body b \<Longrightarrow> relaxed_value ([CHR 0x22] @ b @ [CHR 0x22])"
| rx_empty_array: "relaxed_ws w \<Longrightarrow> relaxed_value (''['' @ w @ '']'')"
| rx_array: "relaxed_elements es \<Longrightarrow> relaxed_value (''['' @ es @ '']'')"
| rx_empty_object: "relaxed_ws w \<Longrightarrow> relaxed_value (''{'' @ w @ ''}'')"
| rx_object: "relaxed_members ms \<Longrightarrow> relaxed_value (''{'' @ ms @ ''}'')"
| rx_last_element:
    "relaxed_ws w1 \<Longrightarrow> relaxed_value v \<Longrightarrow> relaxed_ws w2 \<Longrightarrow> relaxed_elements (w1 @ v @ w2)"
| rx_more_elements:
    "relaxed_ws w1 \<Longrightarrow> relaxed_value v \<Longrightarrow> relaxed_ws w2 \<Longrightarrow> relaxed_elements es \<Longrightarrow>
     relaxed_elements (w1 @ v @ w2 @ '','' @ es)"
| rx_last_member:
    "relaxed_ws w1 \<Longrightarrow> member_name k \<Longrightarrow> relaxed_ws w2 \<Longrightarrow> relaxed_ws w3 \<Longrightarrow>
     relaxed_value v \<Longrightarrow> relaxed_ws w4 \<Longrightarrow>
     relaxed_members (w1 @ k @ w2 @ '':'' @ w3 @ v @ w4)"
| rx_more_members:
    "relaxed_ws w1 \<Longrightarrow> member_name k \<Longrightarrow> relaxed_ws w2 \<Longrightarrow> relaxed_ws w3 \<Longrightarrow>
     relaxed_value v \<Longrightarrow> relaxed_ws w4 \<Longrightarrow> relaxed_members ms \<Longrightarrow>
     relaxed_members (w1 @ k @ w2 @ '':'' @ w3 @ v @ w4 @ '','' @ ms)"

text \<open>A text of the dialect is one value, with whitespace and comments around it.\<close>

inductive relaxed_json :: "string \<Rightarrow> bool" where
  "relaxed_ws w1 \<Longrightarrow> relaxed_value v \<Longrightarrow> relaxed_ws w2 \<Longrightarrow> relaxed_json (w1 @ v @ w2)"

text \<open>The characters with which a JSON value can begin.\<close>

definition value_start :: "char \<Rightarrow> bool" where
  "value_start c =
     (c = CHR ''n'' \<or> c = CHR ''t'' \<or> c = CHR ''f'' \<or> c = CHR ''['' \<or> c = CHR ''{'' \<or>
      c = CHR 0x22 \<or> c = CHR ''-'' \<or> is_digit c)"

subsection \<open>Concrete inputs\<close>

definition doc_foo :: jsval where
  "doc_foo = JObject [(''agents'', JObject [(''defaults'', JObject [(''foo'', JNumber (Finite ''1''))])])]"

definition doc_complete :: jsval where
  "doc_complete =
     JObject [(''agents'', JObject [(''defaults'', JObject [(''sandbox'', JObject [])])])]"

definition doc_sandbox_false :: jsval where
  "doc_sandbox_false =
     JObject [(''agents'', JObject [(''defaults'', JObject [(''sandbox'', JBool False)])])]"

text \<open>
  The document \<^verbatim>\<open>{agents:[7]}\<close>, and what the patch with host root \<^verbatim>\<open>/data\<close> makes
  of it: the array is truthy, so line 24 keeps it, and \<^verbatim>\<open>defaults\<close> becomes a named
  property of the array.
\<close>

definition doc_array :: jsval where
  "doc_array = JObject [(''agents'', JArray [JNumber (Finite ''7'')] [])]"



text \<open>
  The engine on the few function bodies that the examples below run; each entry is what
  JavaScript does with that body, none with an effect besides. Any other body is outside the
  table and is given a SyntaxError.
\<close>

definition sample_engine :: "string \<Rightarrow> filesystem \<Rightarrow> evaluation" where
  "sample_engine body fs =
     \<lparr>outcome =
        (if body = ''return {}'' then Returned (JObject [])
         else if body = ''return null'' then Returned JNull
         else if body = ''return { agents: {} } // relaxed''
           then Returned (JObject [(''agents'', JObject [])])
         else if body = ''return {agents:[7]}'' then Returned doc_array
         else if body = ''return Object()'' then Returned (JObject [])
         else if body = ''return process.exit(7)'' then Exited 7
         else Threw SyntaxError),
      eval_events = [], eval_disk = fs, aftermath = None\<rparr>"

definition env_unset :: environment where
  "env_unset = \<lparr>OPENCLAW_CONFIG_PATH = None, HOST_WORKSPACE_ROOT = None\<rparr>"

definition env_no_host :: environment where
  "env_no_host = \<lparr>OPENCLAW_CONFIG_PATH = Some ''/c.json'', HOST_WORKSPACE_ROOT = None\<rparr>"

definition env_data :: environment where
  "env_data = \<lparr>OPENCLAW_CONFIG_PATH = Some ''/c.json'', HOST_WORKSPACE_ROOT = Some ''/data''\<rparr>"

definition no_files :: filesystem where
  "no_files = (\<lambda>p. None)"

text \<open>One readable regular file, with the answer it gives to a write.\<close>

definition one_file :: "string \<Rightarrow> string \<Rightarrow> write_answer \<Rightarrow> filesystem" where
  "one_file p content w = no_files(p \<mapsto> RegularFile content None w)"

text \<open>What \<^verbatim>\<open>JSON.stringify\<close> prints, with indentation 2, for the empty document patched with host root \<^verbatim>\<open>/data\<close>.\<close>

definition json_after_data :: string where
  "json_after_data =
     ''{'' @ [CHR 0x0A] @
     ''  '' @ [CHR 0x22] @ ''agents'' @ [CHR 0x22] @ '': {'' @ [CHR 0x0A] @
     ''    '' @ [CHR 0x22] @ ''defaults'' @ [CHR 0x22] @ '': {'' @ [CHR 0x0A] @
     ''      '' @ [CHR 0x22] @ ''sandbox'' @ [CHR 0x22] @ '': {'' @ [CHR 0x0A] @
     ''        '' @ [CHR 0x22] @ ''workspaceRoot'' @ [CHR 0x22] @ '': '' @
                    [CHR 0x22] @ ''/data'' @ [CHR 0x22] @ [CHR 0x0A] @
     ''      },'' @ [CHR 0x0A] @
     ''      '' @ [CHR 0x22] @ ''workspace'' @ [CHR 0x22] @ '': '' @
                  [CHR 0x22] @ ''/workspace'' @ [CHR 0x22] @ [CHR 0x0A] @
     ''    }'' @ [CHR 0x0A] @
     ''  }'' @ [CHR 0x0A] @
     ''}''"

section \<open>Properties of property access\<close>


lemma is_object_truthy: "is_object v \<Longrightarrow> truthy v"
  by (cases v) (simp_all add: is_object_def)

lemma get_prop_object: "is_object v \<Longrightarrow> get_prop v k = Inr (field v k)"
  by (cases v) (simp_all add: is_object_def field_def)

lemma set_prop_object: "is_object v \<Longrightarrow> set_prop v k x = Inr (with_prop v k x)"
  by (cases v) (simp_all add: is_object_def)

lemma set_prop_primitive: "\<not> is_object v \<Longrightarrow> set_prop v k x = Inl TypeError"
  by (cases v) (simp_all add: is_object_def)

lemma get_prop_primitive:
  "\<not> is_object v \<Longrightarrow> get_prop v k = (if v = JUndefined \<or> v = JNull then Inl TypeError else Inr JUndefined)"
  by (cases v) (simp_all add: is_object_def)

lemma field_primitive: "\<not> is_object v \<Longrightarrow> field v k = JUndefined"
  by (cases v) (simp_all add: is_object_def field_def)

lemma is_object_with_prop [simp]: "is_object (with_prop v k x) = is_object v"
  by (cases v) (simp_all add: is_object_def)

lemma field_with_prop:
  "is_object v \<Longrightarrow> field (with_prop v k x) k' = (if k' = k then x else field v k')"
  by (cases v) (simp_all add: is_object_def field_def update_conv')

lemma with_prop_twice [simp]: "with_prop (with_prop v k x) k y = with_prop v k y"
  by (cases v) simp_all

lemma with_prop_field: "truthy (field v k) \<Longrightarrow> with_prop v k (field v k) = v"
  by (cases v) (auto simp: field_def update_triv split: option.splits)

lemma ensure_field_object:
  "is_object v \<Longrightarrow> ensure_field v k = Inr (with_prop v k (kept_or_empty (field v k)))"
  by (simp add: ensure_field_def bind_err_def get_prop_object set_prop_object kept_or_empty_def with_prop_field)

lemma ensure_field_primitive: "\<not> is_object v \<Longrightarrow> ensure_field v k = Inl TypeError"
  by (simp add: ensure_field_def bind_err_def get_prop_primitive set_prop_primitive)

lemma in_prop_object:
  "is_object v \<Longrightarrow> in_prop v k f = (case f (field v k) of Inl e \<Rightarrow> Inl e | Inr w \<Rightarrow> Inr (with_prop v k w))"
  by (simp add: in_prop_def bind_err_def get_prop_object set_prop_object split: sum.splits)

lemma is_object_kept_or_empty: "\<not> truthy_primitive v \<Longrightarrow> is_object (kept_or_empty v)"
  by (auto simp: truthy_primitive_def kept_or_empty_def is_object_def)

lemma field_ensured: "is_object v \<Longrightarrow> field (with_prop v k (kept_or_empty (field v k))) k = kept_or_empty (field v k)"
  by (simp add: field_with_prop)

lemma field_kept_or_empty [simp]: "field (kept_or_empty x) k = field x k"
  by (cases x) (simp_all add: kept_or_empty_def field_def)

lemma valid_documentD:
  assumes "valid_document D"
  shows "is_object D"
    and "is_object (kept_or_empty (field D ''agents''))"
    and "is_object (kept_or_empty (field (field D ''agents'') ''defaults''))"
    and "is_object (kept_or_empty (field (field (field D ''agents'') ''defaults'') ''sandbox''))"
  using assms by (simp_all add: valid_document_def rejected_by_patch_def is_object_kept_or_empty)

lemma ensure_structure_object:
  assumes "is_object D"
    and "is_object (kept_or_empty (field D ''agents''))"
    and "is_object (kept_or_empty (field (field D ''agents'') ''defaults''))"
  shows "ensure_structure D =
     Inr (with_prop D ''agents''
           (with_prop (kept_or_empty (field D ''agents'')) ''defaults''
             (with_prop (kept_or_empty (field (field D ''agents'') ''defaults'')) ''sandbox''
               (kept_or_empty (field (field (field D ''agents'') ''defaults'') ''sandbox'')))))"
  using assms
  by (simp add: ensure_structure_def bind_err_def ensure_field_object in_prop_object field_with_prop)


lemma ensure_structure_fails:
  assumes "\<not> (is_object D \<and> is_object (kept_or_empty (field D ''agents''))
      \<and> is_object (kept_or_empty (field (field D ''agents'') ''defaults'')))"
  shows "ensure_structure D = Inl TypeError"
proof (cases "is_object D")
  case False
  then show ?thesis
    by (simp add: ensure_structure_def bind_err_def ensure_field_primitive)
next
  case D: True
  show ?thesis
  proof (cases "is_object (kept_or_empty (field D ''agents''))")
    case False
    with D show ?thesis
      by (simp add: ensure_structure_def bind_err_def ensure_field_object in_prop_object
          field_with_prop ensure_field_primitive)
  next
    case True
    with D assms have "\<not> is_object (kept_or_empty (field (field D ''agents'') ''defaults''))"
      by simp
    with D True show ?thesis
      by (simp add: ensure_structure_def bind_err_def ensure_field_object in_prop_object
          field_with_prop ensure_field_primitive)
  qed
qed

lemma patch_config_valid:
  assumes "valid_document D"
  shows "patch_config R D = Inr (patched R D)"
  using valid_documentD [OF assms]
  by (simp add: patch_config_def bind_err_def ensure_structure_object inject_workspaceRoot_def
      set_workspace_def in_prop_object field_with_prop set_prop_object patched_def Let_def)

lemma patch_config_invalid:
  assumes "\<not> valid_document D"
  shows "patch_config R D = Inl TypeError"
proof (cases "is_object D \<and> is_object (kept_or_empty (field D ''agents''))
      \<and> is_object (kept_or_empty (field (field D ''agents'') ''defaults''))")
  case False
  then show ?thesis
    by (simp add: patch_config_def bind_err_def ensure_structure_fails)
next
  case True
  with assms have "\<not> is_object (kept_or_empty (field (field (field D ''agents'') ''defaults'') ''sandbox''))"
    by (auto simp: valid_document_def rejected_by_patch_def truthy_primitive_def kept_or_empty_def is_object_truthy)
  with True show ?thesis
    by (simp add: patch_config_def bind_err_def ensure_structure_object inject_workspaceRoot_def
      in_prop_object field_with_prop set_prop_primitive)
qed


lemma lookup_path_with_prop:
  "is_object v \<Longrightarrow>
   lookup_path (with_prop v k x) (k' # ks) =
     (if k' = k then lookup_path x ks else lookup_path v (k' # ks))"
  by (cases v) (simp_all add: is_object_def update_conv')

lemma lookup_path_field:
  "lookup_path v (k # k' # ks) = lookup_path (field v k) (k' # ks)"
  by (cases v) (simp_all add: field_def split: option.splits)

lemma lookup_path_is_object: "lookup_path v (k # ks) = Some w \<Longrightarrow> is_object v"
  by (cases v) (simp_all add: is_object_def)

lemma kept_or_empty_object: "is_object v \<Longrightarrow> kept_or_empty v = v"
  by (simp add: kept_or_empty_def is_object_truthy)

lemma patched_workspaceRoot:
  assumes "valid_document D"
  shows "lookup_path (patched R D) workspaceRoot_path = Some (JString R)"
  using valid_documentD [OF assms]
  by (simp add: patched_def Let_def workspaceRoot_path_def lookup_path_with_prop
      del: lookup_path.simps(2))

lemma patched_workspace:
  assumes "valid_document D"
  shows "lookup_path (patched R D) workspace_path = Some (JString ''/workspace'')"
  using valid_documentD [OF assms]
  by (simp add: patched_def Let_def workspace_path_def lookup_path_with_prop
      del: lookup_path.simps(2))

lemma lookup_path_descend:
  assumes "lookup_path v (k # k' # ks) = Some w"
  shows "is_object (field v k)" and "lookup_path (field v k) (k' # ks) = Some w"
  using assms lookup_path_field [of v k k' ks] lookup_path_is_object [of "field v k" k' ks w]
  by simp_all

lemma patched_preserves:
  assumes D: "valid_document D" and p: "\<not> on_patch_path p" and v: "lookup_path D p = Some v"
  shows "lookup_path (patched R D) p = Some v"
proof -
  note objs = valid_documentD [OF D]
  from p obtain k1 p1 where p1: "p = k1 # p1"
    by (cases p) (simp_all add: on_patch_path_def)
  show ?thesis
  proof (cases "k1 = ''agents''")
    case False
    with objs v show ?thesis
      by (simp add: p1 patched_def Let_def lookup_path_with_prop del: lookup_path.simps(2))
  next
    case k1: True
    from p obtain k2 p2 where p2: "p1 = k2 # p2"
      by (cases p1) (simp_all add: on_patch_path_def p1 k1 workspace_path_def)
    from v have a: "is_object (field D ''agents'')"
      and va: "lookup_path (field D ''agents'') (k2 # p2) = Some v"
      by (simp_all add: p1 p2 k1 lookup_path_descend del: lookup_path.simps(2))
    show ?thesis
    proof (cases "k2 = ''defaults''")
      case False
      with objs a va show ?thesis
        by (simp add: p1 p2 k1 patched_def Let_def lookup_path_with_prop kept_or_empty_object
            del: lookup_path.simps(2))
    next
      case k2: True
      from p obtain k3 p3 where p3: "p2 = k3 # p3"
        by (cases p2) (simp_all add: on_patch_path_def p1 p2 k1 k2 workspace_path_def)
      from va have d: "is_object (field (field D ''agents'') ''defaults'')"
        and vd: "lookup_path (field (field D ''agents'') ''defaults'') (k3 # p3) = Some v"
        by (simp_all add: p3 k2 lookup_path_descend del: lookup_path.simps(2))
      from p have k3w: "k3 \<noteq> ''workspace''"
        by (auto simp: on_patch_path_def p1 p2 p3 k1 k2 workspace_path_def)
      show ?thesis
      proof (cases "k3 = ''sandbox''")
        case False
        with objs a d vd k3w show ?thesis
          by (simp add: p1 p2 p3 k1 k2 patched_def Let_def lookup_path_with_prop
              kept_or_empty_object del: lookup_path.simps(2))
      next
        case k3: True
        from p obtain k4 p4 where p4: "p3 = k4 # p4"
          by (cases p3) (simp_all add: on_patch_path_def p1 p2 p3 k1 k2 k3 workspaceRoot_path_def)
        from vd have s: "is_object (field (field (field D ''agents'') ''defaults'') ''sandbox'')"
          and vs: "lookup_path (field (field (field D ''agents'') ''defaults'') ''sandbox'') (k4 # p4) = Some v"
          by (simp_all add: p4 k3 lookup_path_descend del: lookup_path.simps(2))
        from p have k4w: "k4 \<noteq> ''workspaceRoot''"
          by (auto simp: on_patch_path_def p1 p2 p3 p4 k1 k2 k3 workspaceRoot_path_def)
        with objs a d s vs show ?thesis
          by (simp add: p1 p2 p3 p4 k1 k2 k3 patched_def Let_def lookup_path_with_prop
              kept_or_empty_object del: lookup_path.simps(2))
      qed
    qed
  qed
qed

lemma patched_idempotent:
  assumes "valid_document D"
  shows "valid_document (patched R D)" and "patched R (patched R D) = patched R D"
proof -
  note objs = valid_documentD [OF assms]
  let ?s = "with_prop (kept_or_empty (field (field (field D ''agents'') ''defaults'') ''sandbox''))
              ''workspaceRoot'' (JString R)"
  let ?d = "with_prop (with_prop (kept_or_empty (field (field D ''agents'') ''defaults''))
              ''sandbox'' ?s) ''workspace'' (JString ''/workspace'')"
  let ?a = "with_prop (kept_or_empty (field D ''agents'')) ''defaults'' ?d"
  have eq: "patched R D = with_prop D ''agents'' ?a"
    by (simp add: patched_def Let_def)
  have fa: "field (patched R D) ''agents'' = ?a"
    using objs by (simp add: eq field_with_prop)
  have fd: "field ?a ''defaults'' = ?d"
    using objs by (simp add: field_with_prop)
  have fs: "field ?d ''sandbox'' = ?s"
    using objs by (simp add: field_with_prop)
  have oa: "is_object ?a" and od: "is_object ?d" and os: "is_object ?s"
    using objs by simp_all
  show "valid_document (patched R D)"
    using objs oa od os
    by (simp add: valid_document_def rejected_by_patch_def truthy_primitive_def fa fd fs) (simp add: eq)
  have "with_prop ?d ''sandbox'' (field ?d ''sandbox'') = ?d"
    using is_object_truthy [OF os] by (intro with_prop_field) (simp only: fs)
  then have keep: "with_prop ?d ''sandbox'' ?s = ?d"
    by (simp only: fs)
  have "patched R (patched R D) =
      with_prop (patched R D) ''agents''
        (with_prop ?a ''defaults''
          (with_prop (with_prop ?d ''sandbox'' (with_prop ?s ''workspaceRoot'' (JString R)))
             ''workspace'' (JString ''/workspace'')))"
    unfolding patched_def [of R "patched R D"] Let_def field_kept_or_empty
    by (simp only: fa fd fs kept_or_empty_object [OF oa] kept_or_empty_object [OF od]
        kept_or_empty_object [OF os])
  also have "\<dots> = with_prop (patched R D) ''agents'' (with_prop ?a ''defaults'' ?d)"
    by (simp only: with_prop_twice keep)
  also have "\<dots> = patched R D"
    by (simp only: eq with_prop_twice)
  finally show "patched R (patched R D) = patched R D" .
qed


lemma ensure_structure_succeeds:
  assumes "ensure_structure D = Inr D'"
  shows "is_object D"
    and "is_object (kept_or_empty (field D ''agents''))"
    and "is_object (kept_or_empty (field (field D ''agents'') ''defaults''))"
  using assms ensure_structure_fails [of D] by auto

lemma ensured_preserves:
  assumes D: "is_object D"
    and A: "is_object (kept_or_empty (field D ''agents''))"
    and F: "is_object (kept_or_empty (field (field D ''agents'') ''defaults''))"
    and p: "\<not> prefix p sandbox_path" and v: "lookup_path D p = Some v"
  shows "lookup_path
      (with_prop D ''agents''
        (with_prop (kept_or_empty (field D ''agents'')) ''defaults''
          (with_prop (kept_or_empty (field (field D ''agents'') ''defaults'')) ''sandbox''
            (kept_or_empty (field (field (field D ''agents'') ''defaults'') ''sandbox'')))))
      p = Some v"
proof -
  from p obtain k1 p1 where p1: "p = k1 # p1"
    by (cases p) simp_all
  show ?thesis
  proof (cases "k1 = ''agents''")
    case False
    with D v show ?thesis
      by (simp add: p1 lookup_path_with_prop del: lookup_path.simps(2))
  next
    case k1: True
    from p obtain k2 p2 where p2: "p1 = k2 # p2"
      by (cases p1) (simp_all add: p1 k1 sandbox_path_def)
    from v have a: "is_object (field D ''agents'')"
      and va: "lookup_path (field D ''agents'') (k2 # p2) = Some v"
      by (simp_all add: p1 p2 k1 lookup_path_descend del: lookup_path.simps(2))
    show ?thesis
    proof (cases "k2 = ''defaults''")
      case False
      with D A a va show ?thesis
        by (simp add: p1 p2 k1 lookup_path_with_prop kept_or_empty_object
            del: lookup_path.simps(2))
    next
      case k2: True
      from p obtain k3 p3 where p3: "p2 = k3 # p3"
        by (cases p2) (simp_all add: p1 p2 k1 k2 sandbox_path_def)
      from va have d: "is_object (field (field D ''agents'') ''defaults'')"
        and vd: "lookup_path (field (field D ''agents'') ''defaults'') (k3 # p3) = Some v"
        by (simp_all add: p3 k2 lookup_path_descend del: lookup_path.simps(2))
      show ?thesis
      proof (cases "k3 = ''sandbox''")
        case False
        with D A F a d vd show ?thesis
          by (simp add: p1 p2 p3 k1 k2 lookup_path_with_prop kept_or_empty_object
              del: lookup_path.simps(2))
      next
        case k3: True
        from p obtain k4 p4 where p4: "p3 = k4 # p4"
          by (cases p3) (simp_all add: p1 p2 p3 k1 k2 k3 sandbox_path_def)
        from vd have s: "is_object (field (field (field D ''agents'') ''defaults'') ''sandbox'')"
          and vs: "lookup_path (field (field (field D ''agents'') ''defaults'') ''sandbox'') (k4 # p4) = Some v"
          by (simp_all add: p4 k3 lookup_path_descend del: lookup_path.simps(2))
        with D A F a d show ?thesis
          by (simp add: p1 p2 p3 p4 k1 k2 k3 lookup_path_with_prop kept_or_empty_object
              del: lookup_path.simps(2))
      qed
    qed
  qed
qed

lemma ensured_all_truthy:
  assumes "truthy (field D ''agents'')"
    and "truthy (field (field D ''agents'') ''defaults'')"
    and "truthy (field (field (field D ''agents'') ''defaults'') ''sandbox'')"
  shows "with_prop D ''agents''
        (with_prop (kept_or_empty (field D ''agents'')) ''defaults''
          (with_prop (kept_or_empty (field (field D ''agents'') ''defaults'')) ''sandbox''
            (kept_or_empty (field (field (field D ''agents'') ''defaults'') ''sandbox'')))) = D"
  using assms by (simp add: kept_or_empty_def with_prop_field)

section \<open>The patch of a document\<close>

text \<open>
  Claim C1. For every valid document \<open>D\<close> and every host root \<open>R\<close> (non-empty or not),
  the patch of \<open>D\<close> with \<open>R\<close> succeeds with a document \<open>D'\<close> in which
  \<^verbatim>\<open>agents.defaults.sandbox.workspaceRoot\<close> is the string \<open>R\<close> itself and
  \<^verbatim>\<open>agents.defaults.workspace\<close> is \<^verbatim>\<open>"/workspace"\<close>, and every key of \<open>D\<close> that is not on
  the patch path is present in \<open>D'\<close> with the value it has in \<open>D\<close>.
\<close>

theorem patch_sets_fields_and_keeps_rest:
  assumes "valid_document D"
  shows "\<exists>D'. patch_config R D = Inr D' \<and>
           lookup_path D' workspaceRoot_path = Some (JString R) \<and>
           lookup_path D' workspace_path = Some (JString ''/workspace'') \<and>
           (\<forall>p v. \<not> on_patch_path p \<longrightarrow> lookup_path D p = Some v \<longrightarrow> lookup_path D' p = Some v)"
  using assms
  by (simp add: patch_config_valid patched_workspaceRoot patched_workspace patched_preserves)

text \<open>
  C1 at the document \<^verbatim>\<open>{"agents":{"defaults":{"foo":1}}}\<close> with host root \<^verbatim>\<open>/data\<close>:
  the two fields are set and \<^verbatim>\<open>foo\<close> is kept.
\<close>

theorem patch_sets_fields_and_keeps_rest_witness:
  "valid_document doc_foo \<and>
   (\<exists>D'. patch_config ''/data'' doc_foo = Inr D' \<and>
      lookup_path D' workspaceRoot_path = Some (JString ''/data'') \<and>
      lookup_path D' workspace_path = Some (JString ''/workspace'') \<and>
      lookup_path D' [''agents'', ''defaults'', ''foo''] = Some (JNumber (Finite ''1'')))"
proof -
  have valid: "valid_document doc_foo"
    by (simp add: valid_document_def rejected_by_patch_def truthy_primitive_def doc_foo_def
        field_def is_object_def)
  have off: "\<not> on_patch_path [''agents'', ''defaults'', ''foo'']"
    by (simp add: on_patch_path_def workspaceRoot_path_def workspace_path_def)
  have foo: "lookup_path doc_foo [''agents'', ''defaults'', ''foo''] = Some (JNumber (Finite ''1''))"
    by (simp add: doc_foo_def)
  from patch_sets_fields_and_keeps_rest [OF valid, of "''/data''"] off foo valid
  show ?thesis by blast
qed

text \<open>
  Claim C2, as stated, fails: the guards of lines 24 to 26 test truthiness, not presence. In
  \<^verbatim>\<open>{"agents":{"defaults":{"sandbox":false}}}\<close> the field \<^verbatim>\<open>sandbox\<close> exists with
  the value \<^verbatim>\<open>false\<close>, and the step replaces it by an empty mapping.
\<close>

theorem ensure_structure_replaces_falsy_counterexample:
  "lookup_path doc_sandbox_false sandbox_path = Some (JBool False) \<and>
   ensure_structure doc_sandbox_false =
     Inr (JObject [(''agents'', JObject [(''defaults'', JObject [(''sandbox'', JObject [])])])]) \<and>
   lookup_path (JObject [(''agents'', JObject [(''defaults'', JObject [(''sandbox'', JObject [])])])])
     sandbox_path = Some (JObject [])"
  by (simp add: doc_sandbox_false_def sandbox_path_def ensure_structure_def ensure_field_def
      in_prop_def bind_err_def)

text \<open>
  Claim C2, amended. Where the structure step succeeds, each of \<^verbatim>\<open>agents\<close>,
  \<^verbatim>\<open>agents.defaults\<close> and \<^verbatim>\<open>agents.defaults.sandbox\<close> is afterwards its former value
  when that was truthy and an empty mapping when the field was missing or held a falsy value
  (\<^verbatim>\<open>undefined\<close>, \<^verbatim>\<open>null\<close>, \<^verbatim>\<open>false\<close>, \<^verbatim>\<open>0\<close>, \<^verbatim>\<open>NaN\<close>, the empty string), with
  the level below stored in it; a document whose three fields are all truthy is left as it
  is; and every key that is not one of the three fields keeps its value.
\<close>

theorem ensure_structure_fills_missing_or_falsy:
  assumes "ensure_structure D = Inr D'"
  shows "D' = with_prop D ''agents''
           (with_prop (kept_or_empty (field D ''agents'')) ''defaults''
             (with_prop (kept_or_empty (field (field D ''agents'') ''defaults'')) ''sandbox''
               (kept_or_empty (field (field (field D ''agents'') ''defaults'') ''sandbox'')))) \<and>
         lookup_path D' sandbox_path =
           Some (kept_or_empty (field (field (field D ''agents'') ''defaults'') ''sandbox'')) \<and>
         (truthy (field D ''agents'') \<and> truthy (field (field D ''agents'') ''defaults'') \<and>
          truthy (field (field (field D ''agents'') ''defaults'') ''sandbox'') \<longrightarrow> D' = D) \<and>
         (\<forall>p v. \<not> prefix p sandbox_path \<longrightarrow> lookup_path D p = Some v \<longrightarrow> lookup_path D' p = Some v)"
proof -
  note objs = ensure_structure_succeeds [OF assms]
  from assms have eq: "D' = with_prop D ''agents''
           (with_prop (kept_or_empty (field D ''agents'')) ''defaults''
             (with_prop (kept_or_empty (field (field D ''agents'') ''defaults'')) ''sandbox''
               (kept_or_empty (field (field (field D ''agents'') ''defaults'') ''sandbox''))))"
    by (simp add: ensure_structure_object [OF objs])
  have sb: "lookup_path D' sandbox_path =
           Some (kept_or_empty (field (field (field D ''agents'') ''defaults'') ''sandbox''))"
    using objs by (simp add: eq sandbox_path_def lookup_path_with_prop del: lookup_path.simps(2))
  have same: "truthy (field D ''agents'') \<and> truthy (field (field D ''agents'') ''defaults'') \<and>
         truthy (field (field (field D ''agents'') ''defaults'') ''sandbox'') \<longrightarrow> D' = D"
    by (simp add: eq ensured_all_truthy)
  have rest: "\<forall>p v. \<not> prefix p sandbox_path \<longrightarrow> lookup_path D p = Some v \<longrightarrow> lookup_path D' p = Some v"
    unfolding eq using ensured_preserves [OF objs] by blast
  from eq sb same rest show ?thesis by blast
qed

text \<open>
  The amended C2 at \<^verbatim>\<open>{"agents":{"defaults":{"foo":1}}}\<close>, where \<^verbatim>\<open>sandbox\<close> is missing
  and is created empty while \<^verbatim>\<open>foo\<close> is kept, and at
  \<^verbatim>\<open>{"agents":{"defaults":{"sandbox":{}}}}\<close>, which is left as it is.
\<close>

theorem ensure_structure_fills_missing_or_falsy_witness:
  "ensure_structure doc_foo =
     Inr (JObject [(''agents'', JObject [(''defaults'',
            JObject [(''foo'', JNumber (Finite ''1'')), (''sandbox'', JObject [])])])]) \<and>
   lookup_path (JObject [(''agents'', JObject [(''defaults'',
            JObject [(''foo'', JNumber (Finite ''1'')), (''sandbox'', JObject [])])])])
     sandbox_path = Some (JObject []) \<and>
   lookup_path (JObject [(''agents'', JObject [(''defaults'',
            JObject [(''foo'', JNumber (Finite ''1'')), (''sandbox'', JObject [])])])])
     [''agents'', ''defaults'', ''foo''] = Some (JNumber (Finite ''1'')) \<and>
   truthy (field doc_complete ''agents'') \<and>
   truthy (field (field doc_complete ''agents'') ''defaults'') \<and>
   truthy (field (field (field doc_complete ''agents'') ''defaults'') ''sandbox'') \<and>
   ensure_structure doc_complete = Inr doc_complete"
proof -
  let ?D' = "JObject [(''agents'', JObject [(''defaults'',
            JObject [(''foo'', JNumber (Finite ''1'')), (''sandbox'', JObject [])])])]"
  have run: "ensure_structure doc_foo = Inr ?D'"
    by (simp add: doc_foo_def ensure_structure_def ensure_field_def in_prop_def bind_err_def)
  have off: "\<not> prefix [''agents'', ''defaults'', ''foo''] sandbox_path"
    by (simp add: sandbox_path_def)
  have foo: "lookup_path doc_foo [''agents'', ''defaults'', ''foo''] = Some (JNumber (Finite ''1''))"
    by (simp add: doc_foo_def)
  have sb: "kept_or_empty (field (field (field doc_foo ''agents'') ''defaults'') ''sandbox'') = JObject []"
    by (simp add: doc_foo_def field_def kept_or_empty_def)
  from ensure_structure_fills_missing_or_falsy [OF run] off foo run sb
  have first: "ensure_structure doc_foo = Inr ?D' \<and>
      lookup_path ?D' sandbox_path = Some (JObject []) \<and>
      lookup_path ?D' [''agents'', ''defaults'', ''foo''] = Some (JNumber (Finite ''1''))"
    by (metis (no_types, lifting))
  have full: "truthy (field doc_complete ''agents'')"
    "truthy (field (field doc_complete ''agents'') ''defaults'')"
    "truthy (field (field (field doc_complete ''agents'') ''defaults'') ''sandbox'')"
    by (simp_all add: doc_complete_def field_def)
  obtain D' where run': "ensure_structure doc_complete = Inr D'"
    by (simp add: doc_complete_def ensure_structure_def ensure_field_def in_prop_def bind_err_def)
  from ensure_structure_fills_missing_or_falsy [OF run'] full have "D' = doc_complete"
    by blast
  with run' first full show ?thesis
    by simp
qed

text \<open>
  Claim C3. The patch is idempotent: for every valid document \<open>D\<close> and host root \<open>R\<close> the
  patch yields a document \<open>D'\<close>, and the patch of \<open>D'\<close> with the same \<open>R\<close> yields
  \<open>D'\<close> again.
\<close>

theorem patch_config_idempotent:
  assumes "valid_document D"
  shows "\<exists>D'. patch_config R D = Inr D' \<and> patch_config R D' = Inr D'"
  using assms patched_idempotent [OF assms, of R]
  by (simp add: patch_config_valid)


text \<open>C3 at the empty document with host root \<^verbatim>\<open>/data\<close>.\<close>

theorem patch_config_idempotent_witness:
  "valid_document (JObject []) \<and>
   (\<exists>D'. patch_config ''/data'' (JObject []) = Inr D' \<and> patch_config ''/data'' D' = Inr D')"
proof -
  have valid: "valid_document (JObject [])"
    by (simp add: valid_document_def rejected_by_patch_def truthy_primitive_def field_def
        is_object_def)
  from patch_config_idempotent [OF valid, of "''/data''"] valid show ?thesis by simp
qed


section \<open>The serialiser prints strict JSON\<close>

lemma json_number_accepts:
  "json_number ''0''" "json_number ''-0.5''" "json_number ''123''" "json_number ''1e+21''"
  "json_number ''1.5e-7''" "json_number ''0.000001''" "json_number ''-1E5''"
  by (simp_all add: json_number_def json_int_def json_frac_def json_exp_def digits1_def
      is_digit_def)

lemma json_number_rejects:
  "\<not> json_number []" "\<not> json_number ''-''" "\<not> json_number ''01''" "\<not> json_number ''1.''"
  "\<not> json_number ''.5''" "\<not> json_number ''+1''" "\<not> json_number ''1e''" "\<not> json_number ''1e+''"
  "\<not> json_number ''1.2.3''" "\<not> json_number ''1e5e5''" "\<not> json_number ''NaN''"
  "\<not> json_number ''Infinity''" "\<not> json_number ''1 ''"
  by (simp_all add: json_number_def json_int_def json_frac_def json_exp_def digits1_def
      is_digit_def)

lemma is_ws_simps [simp]:
  "is_ws []" "is_ws (a @ b) = (is_ws a \<and> is_ws b)" "is_ws gap"
  "is_ws (CHR 0x0A # s) = is_ws s" "is_ws (CHR '' '' # s) = is_ws s"
  by (simp_all add: is_ws_def gap_def)


















lemma patch_config_patched:
  assumes "patch_config R D = Inr D'"
  shows "D' = patched R D"
  using assms patch_config_valid [of D R] patch_config_invalid [of D R]
  by (cases "valid_document D") simp_all



section \<open>The serialiser lays a representable document out with two spaces\<close>




lemma indent_0 [simp]: "indent 0 = []"
  by (simp add: indent_def)










section \<open>Texts outside the relaxed dialect\<close>

lemma hd_takeWhile: "takeWhile P xs \<noteq> [] \<Longrightarrow> hd (takeWhile P xs) = hd xs"
  by (cases xs) (simp_all split: if_splits)

lemma json_int_first: "json_int s \<Longrightarrow> s \<noteq> [] \<and> is_digit (hd s)"
proof -
  have zero: "is_digit (CHR ''0'')"
    by (simp add: is_digit_def)
  assume "json_int s"
  then consider "s = ''0''" | "digits1 s"
    by (auto simp: json_int_def)
  then show ?thesis
  proof cases
    case 1
    with zero show ?thesis by simp
  next
    case 2
    then show ?thesis
      by (cases s) (simp_all add: digits1_def)
  qed
qed


lemma takeWhile_nonempty: "takeWhile P xs \<noteq> [] \<Longrightarrow> xs \<noteq> []"
  by auto

lemma json_number_int:
  "json_number t \<Longrightarrow>
   json_int (takeWhile (\<lambda>c. c \<noteq> CHR ''.'')
     (takeWhile (\<lambda>c. c \<noteq> CHR ''e'' \<and> c \<noteq> CHR ''E'')
        (if t \<noteq> [] \<and> hd t = CHR ''-'' then tl t else t)))"
  unfolding json_number_def Let_def by (rule conjunct1)

lemma json_number_first:
  assumes "json_number t"
  shows "t \<noteq> [] \<and> (hd t = CHR ''-'' \<or> is_digit (hd t))"
proof -
  define u where "u = (if t \<noteq> [] \<and> hd t = CHR ''-'' then tl t else t)"
  define m where "m = takeWhile (\<lambda>c. c \<noteq> CHR ''e'' \<and> c \<noteq> CHR ''E'') u"
  define i where "i = takeWhile (\<lambda>c. c \<noteq> CHR ''.'') m"
  from json_number_int [OF assms] have "json_int i"
    by (simp only: i_def m_def u_def)
  then have i: "i \<noteq> []" and d: "is_digit (hd i)"
    using json_int_first [of i] by simp_all
  from i have m: "m \<noteq> []"
    unfolding i_def by (rule takeWhile_nonempty)
  then have u: "u \<noteq> []"
    unfolding m_def by (rule takeWhile_nonempty)
  from i have "hd i = hd m"
    unfolding i_def by (rule hd_takeWhile)
  moreover from m have "hd m = hd u"
    unfolding m_def by (rule hd_takeWhile)
  ultimately have du: "is_digit (hd u)"
    using d by simp
  show ?thesis
  proof (cases "t \<noteq> [] \<and> hd t = CHR ''-''")
    case True
    then show ?thesis by simp
  next
    case False
    then have "u = t" by (auto simp: u_def)
    with u du show ?thesis by simp
  qed
qed


lemma relaxed_ws_first:
  assumes "relaxed_ws w" and "w \<noteq> []"
  shows "hd w = CHR '' '' \<or> hd w = CHR 0x09 \<or> hd w = CHR 0x0A \<or> hd w = CHR 0x0D \<or> hd w = CHR ''/''"
  using assms by cases auto

lemma relaxed_value_first:
  assumes "relaxed_value v"
  shows "v \<noteq> [] \<and> value_start (hd v)"
  using assms
proof cases
  case rx_number
  with json_number_first [of v] show ?thesis
    by (auto simp: value_start_def)
qed (simp_all add: value_start_def)

lemma relaxed_json_first:
  assumes "relaxed_json t"
  shows "t \<noteq> [] \<and>
    (value_start (hd t) \<or> hd t = CHR '' '' \<or> hd t = CHR 0x09 \<or> hd t = CHR 0x0A \<or>
     hd t = CHR 0x0D \<or> hd t = CHR ''/'')"
  using assms
proof cases
  case (1 w1 v w2)
  show ?thesis
  proof (cases "w1 = []")
    case True
    with 1 relaxed_value_first [of v] show ?thesis by simp
  next
    case False
    with 1 relaxed_ws_first [of w1] show ?thesis by simp
  qed
qed

lemma not_relaxed_json:
  "\<not> relaxed_json ''Object()''" "\<not> relaxed_json ''process.exit(7)''" "\<not> relaxed_json ''}''"
proof -
  have "\<not> value_start (CHR ''O'')" "\<not> value_start (CHR ''p'')" "\<not> value_start (CHR ''}'')"
    by (simp_all add: value_start_def is_digit_def)
  then show "\<not> relaxed_json ''Object()''" "\<not> relaxed_json ''process.exit(7)''"
    "\<not> relaxed_json ''}''"
    using relaxed_json_first [of "''Object()''"] relaxed_json_first [of "''process.exit(7)''"]
      relaxed_json_first [of "''}''"]
    by auto
qed


section \<open>The process\<close>

lemma config_init_given:
  assumes "HOST_WORKSPACE_ROOT env = Some host" and "host \<noteq> []"
  shows "config_init engine env fs = update_config engine (resolve_configPath env) host fs"
  using assms by (simp add: config_init_def)

lemma host_root_givenE:
  assumes "host_root_given env"
  obtains host where "HOST_WORKSPACE_ROOT env = Some host" and "host \<noteq> []"
  using assms by (auto simp: host_root_given_def split: option.splits)

lemma config_init_skipped:
  assumes "\<not> host_root_given env"
  shows "config_init engine env fs = skipped fs"
  using assms by (auto simp: config_init_def host_root_given_def split: option.splits)

lemma patch_config_stages:
  "patch_config host config = Inr c5 \<longleftrightarrow>
     (\<exists>c3 c4. ensure_structure config = Inr c3 \<and> inject_workspaceRoot host c3 = Inr c4 \<and>
        set_workspace c4 = Inr c5)"
  by (auto simp: patch_config_def bind_err_def split: sum.splits)

lemma patch_config_error_stages:
  assumes "patch_config host config = Inl e"
  shows "ensure_structure config = Inl e \<or>
     (\<exists>c3. ensure_structure config = Inr c3 \<and>
        (inject_workspaceRoot host c3 = Inl e \<or>
         (\<exists>c4. inject_workspaceRoot host c3 = Inr c4 \<and> set_workspace c4 = Inl e)))"
  using assms by (auto simp: patch_config_def bind_err_def split: sum.splits)

lemma patch_and_write_rejected:
  assumes "patch_config host config = Inl e"
  shows "\<exists>evs. patch_and_write path host fs seen config = failed fs (seen @ evs) e \<and>
           filter is_write evs = []"
  using patch_config_error_stages [OF assms]
  by (auto simp: patch_and_write_def Let_def intro: exI [of _ "[]"])

lemma patch_and_write_patched:
  assumes "patch_config host config = Inr config'" and "JSON_stringify config' = Some out"
  shows "patch_and_write path host fs seen config =
     (case writeFileSync fs path out of
        (Some e, fs') \<Rightarrow>
          failed fs' (seen @ [ConsoleLog (''Injecting sandbox.workspaceRoot = '' @ host),
                              ConsoleLog ''Setting internal workspace = /workspace'',
                              WriteFile path out]) e
      | (None, fs') \<Rightarrow>
          \<lparr>exit_status = Some 0, disk = fs',
           events = seen @ [ConsoleLog (''Injecting sandbox.workspaceRoot = '' @ host),
                            ConsoleLog ''Setting internal workspace = /workspace'',
                            WriteFile path out,
                            ConsoleLog ''Config updated successfully.'']\<rparr>)"
proof -
  from assms(1) obtain c3 c4 where "ensure_structure config = Inr c3"
    and "inject_workspaceRoot host c3 = Inr c4" and "set_workspace c4 = Inr config'"
    by (auto simp: patch_config_stages)
  with assms(2) show ?thesis
    by (simp add: patch_and_write_def Let_def del: writeFileSync.simps
        split: prod.splits option.splits)
qed

lemma patched_is_object: "valid_document D \<Longrightarrow> is_object (patched R D)"
  using valid_documentD(1) [of D] by (simp add: patched_def Let_def)

lemma stringify_object: "is_object v \<Longrightarrow> \<exists>out. JSON_stringify v = Some out"
  by (cases v) (simp_all add: is_object_def JSON_stringify_def)

lemma stringify_patched:
  assumes "patch_config host config = Inr config'"
  shows "\<exists>out. JSON_stringify config' = Some out"
proof -
  from assms have "valid_document config"
    using patch_config_invalid [of config host] by (cases "valid_document config") simp_all
  with assms show ?thesis
    using patch_config_patched [OF assms] patched_is_object [of config host] stringify_object
    by simp
qed

lemma update_config_read:
  assumes "readFileSync fs path = Inr raw"
  shows "update_config engine path host fs =
     (let ev = engine (''return '' @ raw) fs in
      case outcome ev of
        Exited n \<Rightarrow>
          finish ev \<lparr>exit_status = Some n, disk = eval_disk ev, events = eval_events ev\<rparr>
      | Hangs \<Rightarrow> \<lparr>exit_status = None, disk = eval_disk ev, events = eval_events ev\<rparr>
      | Threw e \<Rightarrow> finish ev (failed (eval_disk ev) (eval_events ev) e)
      | Returned config \<Rightarrow>
          finish ev (patch_and_write path host (eval_disk ev) (eval_events ev) config))"
proof -
  from assms have "existsSync fs path"
    by (auto simp: existsSync_def split: option.splits)
  with assms show ?thesis
    by (simp add: update_config_def del: readFileSync.simps)
qed

lemma update_config_parsed:
  assumes "readFileSync fs path = Inr raw"
    and "parses_to fs (engine (''return '' @ raw) fs) config"
  shows "update_config engine path host fs = patch_and_write path host fs [] config"
  using assms(2)
  by (simp add: update_config_read [OF assms(1)] parses_to_def no_side_effects_def finish_def)

lemma update_config_rejected:
  assumes "readFileSync fs path = Inr raw"
    and "rejects_with fs (engine (''return '' @ raw) fs) e"
  shows "update_config engine path host fs = failed fs [] e"
  using assms(2)
  by (simp add: update_config_read [OF assms(1)] rejects_with_def no_side_effects_def finish_def)

text \<open>
  Claim C5. Whenever \<^verbatim>\<open>HOST_WORKSPACE_ROOT\<close> is unset or empty, the run leaves the whole
  file system as it was, logs the warning and exits with status 0, whatever the file system
  holds at the config path and whatever the engine would make of the file.
\<close>

theorem missing_host_root_is_noop:
  assumes "HOST_WORKSPACE_ROOT env = None \<or> HOST_WORKSPACE_ROOT env = Some []"
  shows "exit_status (config_init engine env fs) = Some 0 \<and>
         disk (config_init engine env fs) = fs \<and>
         events (config_init engine env fs) =
           [ConsoleWarn ''HOST_WORKSPACE_ROOT not set. Skipping sandbox workspaceRoot injection.'']"
  using assms by (auto simp: config_init_def skipped_def)

text \<open>
  Claim C4, amended. For every config file on whose content the evaluation of line 21 throws
  and does nothing else, the file system is left as it was and no write is attempted; the
  run exits with a non-zero status when \<^verbatim>\<open>HOST_WORKSPACE_ROOT\<close> is set and non-empty,
  and with status 0 when it is not.
\<close>

theorem parse_failure_leaves_file:
  assumes "readFileSync fs (resolve_configPath env) = Inr raw"
    and "rejects_with fs (engine (''return '' @ raw) fs) e"
  shows "disk (config_init engine env fs) = fs \<and>
         filter is_write (events (config_init engine env fs)) = [] \<and>
         (host_root_given env \<longrightarrow>
            (\<exists>n. exit_status (config_init engine env fs) = Some n \<and> n \<noteq> 0)) \<and>
         (\<not> host_root_given env \<longrightarrow> exit_status (config_init engine env fs) = Some 0)"
proof (cases "host_root_given env")
  case False
  then show ?thesis by (simp add: config_init_skipped skipped_def)
next
  case True
  then obtain host where "HOST_WORKSPACE_ROOT env = Some host" and "host \<noteq> []"
    by (rule host_root_givenE)
  then have "config_init engine env fs = failed fs [] e"
    by (simp add: config_init_given update_config_rejected [where engine = engine, OF assms])
  with True show ?thesis by (simp add: failed_def)
qed

text \<open>
  Claim C6, amended. Whenever the resolved config path does not exist, the run creates no
  file, changes nothing and exits with status 0; it logs one error-level message, naming
  the path, when \<^verbatim>\<open>HOST_WORKSPACE_ROOT\<close> is set and non-empty, and only the warning when
  it is not.
\<close>

theorem missing_config_file_is_noop:
  assumes "\<not> existsSync fs (resolve_configPath env)"
  shows "exit_status (config_init engine env fs) = Some 0 \<and>
         disk (config_init engine env fs) = fs \<and>
         events (config_init engine env fs) =
           (if host_root_given env
            then [ConsoleError (''Config file not found at '' @ resolve_configPath env) None]
            else [ConsoleWarn ''HOST_WORKSPACE_ROOT not set. Skipping sandbox workspaceRoot injection.''])"
proof (cases "host_root_given env")
  case False
  then show ?thesis by (simp add: config_init_skipped skipped_def)
next
  case True
  then obtain host where "HOST_WORKSPACE_ROOT env = Some host" and "host \<noteq> []"
    by (rule host_root_givenE)
  with True show ?thesis
    using assms by (simp add: config_init_given update_config_def)
qed

lemma rejected_patch_config:
  "rejected_by_patch config \<Longrightarrow> patch_config host config = Inl TypeError"
  by (simp add: patch_config_invalid valid_document_def)

text \<open>
  Claim C9, amended. If the config file parses to a value that is not an object, or in which
  \<^verbatim>\<open>agents\<close>, \<^verbatim>\<open>agents.defaults\<close> or \<^verbatim>\<open>agents.defaults.sandbox\<close> holds a truthy
  primitive, then the patch of that value throws a TypeError, no write is attempted and the
  file system is left as it was; when \<^verbatim>\<open>HOST_WORKSPACE_ROOT\<close> is set and non-empty the
  TypeError is what the handler logs last and the run exits with status 1, and when it is
  not the run exits with status 0. To parse to a value is for line 21 to return it and to
  do nothing else.
\<close>

theorem rejected_document_fails_run:
  assumes "readFileSync fs (resolve_configPath env) = Inr raw"
    and "parses_to fs (engine (''return '' @ raw) fs) config"
    and "rejected_by_patch config"
  shows "patch_config h config = Inl TypeError \<and>
         disk (config_init engine env fs) = fs \<and>
         filter is_write (events (config_init engine env fs)) = [] \<and>
         exit_status (config_init engine env fs) =
           (if host_root_given env then Some 1 else Some 0) \<and>
         (host_root_given env \<longrightarrow>
            last (events (config_init engine env fs)) =
              ConsoleError ''Failed to update config:'' (Some TypeError))"
proof (cases "host_root_given env")
  case False
  then show ?thesis
    by (simp add: config_init_skipped skipped_def rejected_patch_config [OF assms(3)])
next
  case True
  then obtain host where host: "HOST_WORKSPACE_ROOT env = Some host" "host \<noteq> []"
    by (rule host_root_givenE)
  from patch_and_write_rejected [OF rejected_patch_config [OF assms(3)],
      where path = "resolve_configPath env" and host = host and fs = fs and seen = "[]"]
  obtain evs where "patch_and_write (resolve_configPath env) host fs [] config =
      failed fs evs TypeError" and "filter is_write evs = []"
    by auto
  with True show ?thesis
    by (simp add: config_init_given [OF host] update_config_parsed [where engine = engine, OF assms(1,2)] failed_def
        rejected_patch_config [OF assms(3)])
qed






lemma failed_not_successful:
  assumes "ConsoleLog ''Config updated successfully.'' \<notin> set evs"
  shows "\<not> successful (failed fs evs e)"
  using assms by (simp add: successful_def failed_def)


text \<open>
  Claim C10, amended. Take two runs with the same values of the two environment variables
  and the same entry at the resolved config path: absent, a directory, or a regular file
  with the same content that answers reading and writing the same way. If line 21 ends the
  same way in both runs, with the same value, the same error or the same exit status, and
  has no other effect, then the two runs end with the same exit status, the same console
  output and writes, and the same entry at the config path, whatever else the two file
  systems hold.
\<close>

theorem run_depends_only_on_config_entry:
  assumes "fs1 (resolve_configPath env) = fs2 (resolve_configPath env)"
    and "\<forall>raw. readFileSync fs1 (resolve_configPath env) = Inr raw \<longrightarrow>
           outcome (engine1 (''return '' @ raw) fs1) = outcome (engine2 (''return '' @ raw) fs2) \<and>
           no_side_effects fs1 (engine1 (''return '' @ raw) fs1) \<and>
           no_side_effects fs2 (engine2 (''return '' @ raw) fs2)"
  shows "exit_status (config_init engine1 env fs1) = exit_status (config_init engine2 env fs2) \<and>
         events (config_init engine1 env fs1) = events (config_init engine2 env fs2) \<and>
         disk (config_init engine1 env fs1) (resolve_configPath env) =
           disk (config_init engine2 env fs2) (resolve_configPath env)"
proof (cases "host_root_given env")
  case False
  then show ?thesis by (simp add: config_init_skipped skipped_def assms(1))
next
  case host_given: True
  then obtain host where host: "HOST_WORKSPACE_ROOT env = Some host" "host \<noteq> []"
    by (rule host_root_givenE)
  let ?path = "resolve_configPath env"
  have exists: "existsSync fs1 ?path = existsSync fs2 ?path"
    by (simp add: existsSync_def assms(1))
  have reads: "readFileSync fs1 ?path = readFileSync fs2 ?path"
    using assms(1) by (cases "fs2 ?path") simp_all
  have answers: "fst (writeFileSync fs1 ?path out) = fst (writeFileSync fs2 ?path out) \<and>
      snd (writeFileSync fs1 ?path out) ?path = snd (writeFileSync fs2 ?path out) ?path" for out
    using assms(1) by (auto split: option.splits fs_entry.splits write_answer.splits)
  show ?thesis
  proof (cases "existsSync fs1 ?path")
    case False
    with exists show ?thesis
      by (simp add: config_init_given [OF host] update_config_def assms(1))
  next
    case True
    show ?thesis
    proof (cases "readFileSync fs1 ?path")
      case (Inl e)
      with reads have "readFileSync fs2 ?path = Inl e"
        by simp
      with True exists Inl show ?thesis
        by (simp add: config_init_given [OF host] update_config_def failed_def assms(1)
            del: readFileSync.simps)
    next
      case (Inr raw)
      with reads have Inr2: "readFileSync fs2 ?path = Inr raw"
        by simp
      let ?ev1 = "engine1 (''return '' @ raw) fs1"
      let ?ev2 = "engine2 (''return '' @ raw) fs2"
      from assms(2) Inr have same: "outcome ?ev1 = outcome ?ev2"
        and quiet1: "no_side_effects fs1 ?ev1" and quiet2: "no_side_effects fs2 ?ev2"
        by simp_all
      note unfold1 = config_init_given [OF host]
        update_config_read [where engine = engine1, OF Inr] Let_def
      note unfold2 = config_init_given [OF host]
        update_config_read [where engine = engine2, OF Inr2] Let_def
      show ?thesis
      proof (cases "outcome ?ev2")
        case (Returned config)
        with same quiet1 have run1:
          "config_init engine1 env fs1 = patch_and_write ?path host fs1 [] config"
          by (simp add: unfold1 no_side_effects_def finish_def)
        from Returned quiet2 have run2:
          "config_init engine2 env fs2 = patch_and_write ?path host fs2 [] config"
          by (simp add: unfold2 no_side_effects_def finish_def)
        show ?thesis
        proof (cases "patch_config host config")
          case (Inl e)
          from patch_config_error_stages [OF Inl] show ?thesis
            by (auto simp: run1 run2 patch_and_write_def Let_def failed_def assms(1))
        next
          case patched: (Inr config')
          from stringify_patched [OF patched] obtain out where out: "JSON_stringify config' = Some out"
            by blast
          note written1 = patch_and_write_patched [OF patched out, where path = ?path
              and fs = fs1 and seen = "[]"]
          note written2 = patch_and_write_patched [OF patched out, where path = ?path
              and fs = fs2 and seen = "[]"]
          obtain e1 d1 where w1: "writeFileSync fs1 ?path out = (e1, d1)"
            by (cases "writeFileSync fs1 ?path out")
          obtain e2 d2 where w2: "writeFileSync fs2 ?path out = (e2, d2)"
            by (cases "writeFileSync fs2 ?path out")
          from answers [of out] w1 w2 have "e1 = e2" and "d1 ?path = d2 ?path"
            by simp_all
          with w1 w2 show ?thesis
            by (cases e2) (simp_all add: run1 run2 written1 written2 failed_def
                del: writeFileSync.simps)
        qed
      next
        case (Threw e)
        with same quiet1 quiet2 show ?thesis
          by (simp add: unfold1 unfold2 no_side_effects_def finish_def failed_def assms(1))
      next
        case (Exited n)
        with same quiet1 quiet2 show ?thesis
          by (simp add: unfold1 unfold2 no_side_effects_def finish_def assms(1))
      next
        case Hangs
        with same quiet1 quiet2 show ?thesis
          by (simp add: unfold1 unfold2 no_side_effects_def assms(1))
      qed
    qed
  qed
qed


section \<open>Concrete runs\<close>

lemma env_data_simps:
  "resolve_configPath env_data = ''/c.json''" "host_root_given env_data"
  "HOST_WORKSPACE_ROOT env_data = Some ''/data''"
  by (simp_all add: env_data_def resolve_configPath_def host_root_given_def)

lemma env_no_host_simps:
  "resolve_configPath env_no_host = ''/c.json''" "\<not> host_root_given env_no_host"
  "HOST_WORKSPACE_ROOT env_no_host = None"
  by (simp_all add: env_no_host_def resolve_configPath_def host_root_given_def)

lemma one_file_simps:
  "one_file p raw w p = Some (RegularFile raw None w)" "existsSync (one_file p raw w) p"
  "readFileSync (one_file p raw w) p = Inr raw" "\<not> existsSync no_files p"
  by (simp_all add: one_file_def no_files_def existsSync_def)

lemma sample_engine_quiet: "no_side_effects fs (sample_engine body fs)"
  by (simp add: no_side_effects_def sample_engine_def)

lemma sample_engine_outcome:
  "outcome (sample_engine ''return {'' fs) = Threw SyntaxError"
  "outcome (sample_engine ''return }'' fs) = Threw SyntaxError"
  "outcome (sample_engine ''return null'' fs) = Returned JNull"
  "outcome (sample_engine ''return {}'' fs) = Returned (JObject [])"
  "outcome (sample_engine ''return { agents: {} } // relaxed'' fs) =
     Returned (JObject [(''agents'', JObject [])])"
  "outcome (sample_engine ''return {agents:[7]}'' fs) = Returned doc_array"
  "outcome (sample_engine ''return Object()'' fs) = Returned (JObject [])"
  "outcome (sample_engine ''return process.exit(7)'' fs) = Exited 7"
  by (simp_all add: sample_engine_def)

lemma sample_engine_parses:
  "parses_to fs (sample_engine (''return '' @ ''null'') fs) JNull"
  "parses_to fs (sample_engine (''return '' @ ''{}'') fs) (JObject [])"
  "parses_to fs (sample_engine (''return '' @ ''{ agents: {} } // relaxed'') fs)
     (JObject [(''agents'', JObject [])])"
  "parses_to fs (sample_engine (''return '' @ ''{agents:[7]}'') fs) doc_array"
  "parses_to fs (sample_engine (''return '' @ ''Object()'') fs) (JObject [])"
  by (simp_all add: parses_to_def sample_engine_quiet sample_engine_outcome)

lemma sample_engine_rejects:
  "rejects_with fs (sample_engine (''return '' @ ''{'') fs) SyntaxError"
  by (simp add: rejects_with_def sample_engine_quiet sample_engine_outcome)



lemma patch_config_empty:
  "patch_config R (JObject []) =
     Inr (JObject [(''agents'', JObject [(''defaults'',
        JObject [(''sandbox'', JObject [(''workspaceRoot'', JString R)]),
                 (''workspace'', JString ''/workspace'')])])])"
  by (simp add: patch_config_def ensure_structure_def inject_workspaceRoot_def set_workspace_def
      ensure_field_def in_prop_def bind_err_def)



lemma quote_plain:
  "QuoteJSONString ''agents'' = [CHR 0x22] @ ''agents'' @ [CHR 0x22]"
  "QuoteJSONString ''defaults'' = [CHR 0x22] @ ''defaults'' @ [CHR 0x22]"
  "QuoteJSONString ''sandbox'' = [CHR 0x22] @ ''sandbox'' @ [CHR 0x22]"
  "QuoteJSONString ''workspaceRoot'' = [CHR 0x22] @ ''workspaceRoot'' @ [CHR 0x22]"
  "QuoteJSONString ''workspace'' = [CHR 0x22] @ ''workspace'' @ [CHR 0x22]"
  "QuoteJSONString ''/workspace'' = [CHR 0x22] @ ''/workspace'' @ [CHR 0x22]"
  "QuoteJSONString ''/home/user/proj'' = [CHR 0x22] @ ''/home/user/proj'' @ [CHR 0x22]"
  "QuoteJSONString ''/data'' = [CHR 0x22] @ ''/data'' @ [CHR 0x22]"
  by (simp_all add: QuoteJSONString_def quote_char_def)

text \<open>
  The first scenario of the specification: the empty document with host root
  \<^verbatim>\<open>/home/user/proj\<close>, as the patch leaves it and as it is printed.
\<close>

lemma scenario_empty_document:
  "JSON_stringify (JObject [(''agents'', JObject [(''defaults'',
        JObject [(''sandbox'', JObject [(''workspaceRoot'', JString ''/home/user/proj'')]),
                 (''workspace'', JString ''/workspace'')])])]) =
   Some (''{'' @ [CHR 0x0A] @
         ''  '' @ [CHR 0x22] @ ''agents'' @ [CHR 0x22] @ '': {'' @ [CHR 0x0A] @
         ''    '' @ [CHR 0x22] @ ''defaults'' @ [CHR 0x22] @ '': {'' @ [CHR 0x0A] @
         ''      '' @ [CHR 0x22] @ ''sandbox'' @ [CHR 0x22] @ '': {'' @ [CHR 0x0A] @
         ''        '' @ [CHR 0x22] @ ''workspaceRoot'' @ [CHR 0x22] @ '': '' @
                        [CHR 0x22] @ ''/home/user/proj'' @ [CHR 0x22] @ [CHR 0x0A] @
         ''      },'' @ [CHR 0x0A] @
         ''      '' @ [CHR 0x22] @ ''workspace'' @ [CHR 0x22] @ '': '' @
                      [CHR 0x22] @ ''/workspace'' @ [CHR 0x22] @ [CHR 0x0A] @
         ''    }'' @ [CHR 0x0A] @
         ''  }'' @ [CHR 0x0A] @
         ''}'')"
  by (simp add: JSON_stringify_def wrap_def gap_def quote_plain)

lemma stringify_after_data:
  "JSON_stringify (JObject [(''agents'', JObject [(''defaults'',
        JObject [(''sandbox'', JObject [(''workspaceRoot'', JString ''/data'')]),
                 (''workspace'', JString ''/workspace'')])])]) = Some json_after_data"
  by (simp add: JSON_stringify_def wrap_def gap_def quote_plain json_after_data_def)


lemma run_on_one_file:
  assumes "parses_to (one_file ''/c.json'' raw w)
      (eng (''return '' @ raw) (one_file ''/c.json'' raw w)) config"
  shows "config_init eng env_data (one_file ''/c.json'' raw w) =
     patch_and_write ''/c.json'' ''/data'' (one_file ''/c.json'' raw w) [] config"
  using update_config_parsed [where engine = eng, OF one_file_simps(3) assms]
  by (simp add: config_init_given [OF env_data_simps(3)] env_data_simps)

lemma run_on_writable:
  assumes "parses_to (one_file ''/c.json'' raw Accepts)
      (eng (''return '' @ raw) (one_file ''/c.json'' raw Accepts)) config"
    and "patch_config ''/data'' config = Inr config'"
    and "JSON_stringify config' = Some out"
  shows "config_init eng env_data (one_file ''/c.json'' raw Accepts) =
     \<lparr>exit_status = Some 0, disk = one_file ''/c.json'' out Accepts,
      events = [ConsoleLog ''Injecting sandbox.workspaceRoot = /data'',
                ConsoleLog ''Setting internal workspace = /workspace'',
                WriteFile ''/c.json'' out,
                ConsoleLog ''Config updated successfully.'']\<rparr>"
proof -
  have "writeFileSync (one_file ''/c.json'' raw Accepts) ''/c.json'' out =
      (None, one_file ''/c.json'' out Accepts)"
    by (simp add: one_file_def)
  then show ?thesis
    by (simp add: run_on_one_file [where eng = eng, OF assms(1)]
        patch_and_write_patched [OF assms(2,3)] del: writeFileSync.simps)
qed

lemma run_on_refusing:
  assumes "parses_to (one_file ''/c.json'' raw (Refuses e))
      (eng (''return '' @ raw) (one_file ''/c.json'' raw (Refuses e))) config"
    and "patch_config ''/data'' config = Inr config'"
    and "JSON_stringify config' = Some out"
  shows "config_init eng env_data (one_file ''/c.json'' raw (Refuses e)) =
     \<lparr>exit_status = Some 1, disk = one_file ''/c.json'' raw (Refuses e),
      events = [ConsoleLog ''Injecting sandbox.workspaceRoot = /data'',
                ConsoleLog ''Setting internal workspace = /workspace'',
                WriteFile ''/c.json'' out,
                ConsoleError ''Failed to update config:'' (Some e)]\<rparr>"
proof -
  have "writeFileSync (one_file ''/c.json'' raw (Refuses e)) ''/c.json'' out =
      (Some e, one_file ''/c.json'' raw (Refuses e))"
    by (simp add: one_file_def)
  then show ?thesis
    by (simp add: run_on_one_file [where eng = eng, OF assms(1)]
        patch_and_write_patched [OF assms(2,3)] failed_def del: writeFileSync.simps)
qed

lemma run_on_object_call:
  "config_init sample_engine env_data (one_file ''/c.json'' ''Object()'' Accepts) =
     \<lparr>exit_status = Some 0, disk = one_file ''/c.json'' json_after_data Accepts,
      events = [ConsoleLog ''Injecting sandbox.workspaceRoot = /data'',
                ConsoleLog ''Setting internal workspace = /workspace'',
                WriteFile ''/c.json'' json_after_data,
                ConsoleLog ''Config updated successfully.'']\<rparr>"
  by (rule run_on_writable [where eng = sample_engine, OF sample_engine_parses(5)
        patch_config_empty stringify_after_data])



text \<open>
  Claim C4, as stated, fails twice. The text \<^verbatim>\<open>Object()\<close> is no document of the relaxed
  dialect, yet line 21 runs it as an expression and gets an empty object: the run exits
  with status 0 and the file is rewritten. And with \<^verbatim>\<open>HOST_WORKSPACE_ROOT\<close> unset the guard
  of lines 7 to 10 ends the run with status 0 before the file is looked at, also when its
  content (here a lone closing brace) makes line 21 throw.
\<close>

theorem parse_failure_exit_counterexample:
  "\<not> relaxed_json ''Object()'' \<and>
   readFileSync (one_file ''/c.json'' ''Object()'' Accepts) (resolve_configPath env_data) =
     Inr ''Object()'' \<and>
   host_root_given env_data \<and>
   outcome (sample_engine (''return '' @ ''Object()'') (one_file ''/c.json'' ''Object()'' Accepts)) =
     Returned (JObject []) \<and>
   exit_status (config_init sample_engine env_data (one_file ''/c.json'' ''Object()'' Accepts)) =
     Some 0 \<and>
   disk (config_init sample_engine env_data (one_file ''/c.json'' ''Object()'' Accepts)) ''/c.json'' =
     Some (RegularFile json_after_data None Accepts) \<and>
   json_after_data \<noteq> ''Object()'' \<and>
   \<not> relaxed_json ''}'' \<and>
   readFileSync (one_file ''/c.json'' ''}'' Accepts) (resolve_configPath env_no_host) = Inr ''}'' \<and>
   outcome (sample_engine (''return '' @ ''}'') (one_file ''/c.json'' ''}'' Accepts)) =
     Threw SyntaxError \<and>
   exit_status (config_init sample_engine env_no_host (one_file ''/c.json'' ''}'' Accepts)) = Some 0"
  by (simp add: not_relaxed_json env_data_simps env_no_host_simps one_file_simps
      sample_engine_outcome run_on_object_call config_init_skipped skipped_def
      json_after_data_def del: readFileSync.simps)

text \<open>
  The amended C4 on the file \<^verbatim>\<open>{\<close> with host root \<^verbatim>\<open>/data\<close>.
\<close>

theorem parse_failure_leaves_file_witness:
  "readFileSync (one_file ''/c.json'' ''{'' Accepts) (resolve_configPath env_data) = Inr ''{'' \<and>
   rejects_with (one_file ''/c.json'' ''{'' Accepts)
     (sample_engine (''return '' @ ''{'') (one_file ''/c.json'' ''{'' Accepts)) SyntaxError \<and>
   host_root_given env_data \<and>
   disk (config_init sample_engine env_data (one_file ''/c.json'' ''{'' Accepts)) =
     one_file ''/c.json'' ''{'' Accepts \<and>
   filter is_write (events (config_init sample_engine env_data (one_file ''/c.json'' ''{'' Accepts))) = [] \<and>
   exit_status (config_init sample_engine env_data (one_file ''/c.json'' ''{'' Accepts)) = Some 1"
proof -
  let ?fs = "one_file ''/c.json'' ''{'' Accepts"
  have entry: "readFileSync ?fs (resolve_configPath env_data) = Inr ''{''"
    by (simp add: env_data_simps one_file_simps del: readFileSync.simps)
  have rejects: "rejects_with ?fs (sample_engine (''return '' @ ''{'') ?fs) SyntaxError"
    by (rule sample_engine_rejects)
  have "exit_status (config_init sample_engine env_data ?fs) = Some 1"
    by (simp add: config_init_given [OF env_data_simps(3)] env_data_simps failed_def
        update_config_rejected [where engine = sample_engine, OF one_file_simps(3) rejects])
  with parse_failure_leaves_file [where engine = sample_engine and fs = ?fs and env = env_data,
      OF entry rejects] env_data_simps(2) entry rejects
  show ?thesis by (simp del: readFileSync.simps)
qed

text \<open>
  C5 with both variables unset and a config file at the default path.
\<close>

theorem missing_host_root_is_noop_witness:
  "HOST_WORKSPACE_ROOT env_unset = None \<and>
   exit_status (config_init sample_engine env_unset
      (one_file ''/root/.openclaw/openclaw.json'' ''{}'' Accepts)) = Some 0 \<and>
   disk (config_init sample_engine env_unset
      (one_file ''/root/.openclaw/openclaw.json'' ''{}'' Accepts)) =
      one_file ''/root/.openclaw/openclaw.json'' ''{}'' Accepts \<and>
   events (config_init sample_engine env_unset
      (one_file ''/root/.openclaw/openclaw.json'' ''{}'' Accepts)) =
      [ConsoleWarn ''HOST_WORKSPACE_ROOT not set. Skipping sandbox workspaceRoot injection.'']"
proof -
  have unset: "HOST_WORKSPACE_ROOT env_unset = None"
    by (simp add: env_unset_def)
  then have "HOST_WORKSPACE_ROOT env_unset = None \<or> HOST_WORKSPACE_ROOT env_unset = Some []"
    by simp
  from missing_host_root_is_noop [OF this] unset show ?thesis by simp
qed

text \<open>
  Claim C6, as stated, fails in one point: with \<^verbatim>\<open>HOST_WORKSPACE_ROOT\<close> unset and no config
  file the run logs the warning only, and no error-level message.
\<close>

theorem missing_config_file_log_counterexample:
  "existsSync no_files (resolve_configPath env_no_host) = False \<and>
   events (config_init sample_engine env_no_host no_files) =
     [ConsoleWarn ''HOST_WORKSPACE_ROOT not set. Skipping sandbox workspaceRoot injection.'']"
  by (simp add: env_no_host_simps one_file_simps config_init_skipped skipped_def)

text \<open>
  The amended C6 with host root \<^verbatim>\<open>/data\<close> and an empty file system.
\<close>

theorem missing_config_file_is_noop_witness:
  "\<not> existsSync no_files (resolve_configPath env_data) \<and> host_root_given env_data \<and>
   exit_status (config_init sample_engine env_data no_files) = Some 0 \<and>
   disk (config_init sample_engine env_data no_files) = no_files \<and>
   events (config_init sample_engine env_data no_files) =
     [ConsoleError ''Config file not found at /c.json'' None]"
proof -
  have missing: "\<not> existsSync no_files (resolve_configPath env_data)"
    by (simp add: one_file_simps)
  from missing_config_file_is_noop [OF missing, of sample_engine] env_data_simps(2) missing
  show ?thesis by (simp add: env_data_simps)
qed



text \<open>
  Claim C9, as stated, fails: the file \<^verbatim>\<open>null\<close> parses to a value that is not an object,
  and with \<^verbatim>\<open>HOST_WORKSPACE_ROOT\<close> unset the run exits with status 0.
\<close>

theorem rejected_document_exit_counterexample:
  "readFileSync (one_file ''/c.json'' ''null'' Accepts) (resolve_configPath env_no_host) =
     Inr ''null'' \<and>
   parses_to (one_file ''/c.json'' ''null'' Accepts)
     (sample_engine (''return '' @ ''null'') (one_file ''/c.json'' ''null'' Accepts)) JNull \<and>
   is_object JNull = False \<and>
   exit_status (config_init sample_engine env_no_host (one_file ''/c.json'' ''null'' Accepts)) =
     Some 0"
  using sample_engine_parses(1) [of "one_file ''/c.json'' ''null'' Accepts"]
  by (simp add: env_no_host_simps one_file_simps config_init_skipped
      skipped_def is_object_def del: readFileSync.simps)

text \<open>
  The amended C9 on the file \<^verbatim>\<open>null\<close> with host root \<^verbatim>\<open>/data\<close>.
\<close>

theorem rejected_document_fails_run_witness:
  "readFileSync (one_file ''/c.json'' ''null'' Accepts) (resolve_configPath env_data) = Inr ''null'' \<and>
   parses_to (one_file ''/c.json'' ''null'' Accepts)
     (sample_engine (''return '' @ ''null'') (one_file ''/c.json'' ''null'' Accepts)) JNull \<and>
   rejected_by_patch JNull \<and>
   host_root_given env_data \<and>
   patch_config ''/data'' JNull = Inl TypeError \<and>
   disk (config_init sample_engine env_data (one_file ''/c.json'' ''null'' Accepts)) =
     one_file ''/c.json'' ''null'' Accepts \<and>
   filter is_write (events (config_init sample_engine env_data (one_file ''/c.json'' ''null'' Accepts))) = [] \<and>
   exit_status (config_init sample_engine env_data (one_file ''/c.json'' ''null'' Accepts)) = Some 1 \<and>
   last (events (config_init sample_engine env_data (one_file ''/c.json'' ''null'' Accepts))) =
     ConsoleError ''Failed to update config:'' (Some TypeError)"
proof -
  let ?fs = "one_file ''/c.json'' ''null'' Accepts"
  have entry: "readFileSync ?fs (resolve_configPath env_data) = Inr ''null''"
    by (simp add: env_data_simps one_file_simps del: readFileSync.simps)
  have parsed: "parses_to ?fs (sample_engine (''return '' @ ''null'') ?fs) JNull"
    by (rule sample_engine_parses)
  have rej: "rejected_by_patch JNull"
    by (simp add: rejected_by_patch_def is_object_def)
  from rejected_document_fails_run [where engine = sample_engine and env = env_data
      and fs = ?fs and h = "''/data''", OF entry parsed rej]
    env_data_simps(2) entry parsed rej
  show ?thesis by (simp del: readFileSync.simps)
qed






lemma sample_engine_same:
  "outcome (sample_engine body fs1) = outcome (sample_engine body fs2)"
  by (simp add: sample_engine_def)

lemma run_on_unreadable:
  "config_init eng env_data (no_files(''/c.json'' \<mapsto> RegularFile raw (Some e) w)) =
     failed (no_files(''/c.json'' \<mapsto> RegularFile raw (Some e) w)) [] e"
  by (simp add: config_init_given [OF env_data_simps(3)] env_data_simps update_config_def
      existsSync_def)

text \<open>
  Claim C10, as stated, fails: with the same file content \<^verbatim>\<open>{}\<close> and the same environment
  variables, the run on a file that can be read and written exits with status 0 and leaves
  the patched text, the run on a file that refuses the write exits with status 1 and leaves
  the file as it was, and so does the run on a file that refuses to be read.
\<close>

theorem same_content_different_exit_counterexample:
  "one_file ''/c.json'' ''{}'' Accepts ''/c.json'' = Some (RegularFile ''{}'' None Accepts) \<and>
   exit_status (config_init sample_engine env_data (one_file ''/c.json'' ''{}'' Accepts)) = Some 0 \<and>
   disk (config_init sample_engine env_data (one_file ''/c.json'' ''{}'' Accepts)) ''/c.json'' =
     Some (RegularFile json_after_data None Accepts) \<and>
   json_after_data \<noteq> ''{}'' \<and>
   one_file ''/c.json'' ''{}'' (Refuses (SystemError ''EACCES'')) ''/c.json'' =
     Some (RegularFile ''{}'' None (Refuses (SystemError ''EACCES''))) \<and>
   exit_status (config_init sample_engine env_data
      (one_file ''/c.json'' ''{}'' (Refuses (SystemError ''EACCES'')))) = Some 1 \<and>
   disk (config_init sample_engine env_data
      (one_file ''/c.json'' ''{}'' (Refuses (SystemError ''EACCES'')))) ''/c.json'' =
     Some (RegularFile ''{}'' None (Refuses (SystemError ''EACCES''))) \<and>
   exit_status (config_init sample_engine env_data
      (no_files(''/c.json'' \<mapsto> RegularFile ''{}'' (Some (SystemError ''EACCES'')) Accepts))) =
     Some 1 \<and>
   disk (config_init sample_engine env_data
      (no_files(''/c.json'' \<mapsto> RegularFile ''{}'' (Some (SystemError ''EACCES'')) Accepts)))
      ''/c.json'' = Some (RegularFile ''{}'' (Some (SystemError ''EACCES'')) Accepts)"
  by (simp add: run_on_writable [where eng = sample_engine, OF sample_engine_parses(2)
        patch_config_empty stringify_after_data]
      run_on_refusing [where eng = sample_engine, OF sample_engine_parses(2)
        patch_config_empty stringify_after_data]
      run_on_unreadable failed_def one_file_simps json_after_data_def)

text \<open>
  The amended C10 on two file systems that differ away from the config path.
\<close>

theorem run_depends_only_on_config_entry_witness:
  "one_file ''/c.json'' ''{}'' Accepts (resolve_configPath env_data) =
     ((one_file ''/c.json'' ''{}'' Accepts)(''/other'' \<mapsto> Directory)) (resolve_configPath env_data) \<and>
   readFileSync (one_file ''/c.json'' ''{}'' Accepts) (resolve_configPath env_data) = Inr ''{}'' \<and>
   outcome (sample_engine (''return '' @ ''{}'') (one_file ''/c.json'' ''{}'' Accepts)) =
     outcome (sample_engine (''return '' @ ''{}'')
        ((one_file ''/c.json'' ''{}'' Accepts)(''/other'' \<mapsto> Directory))) \<and>
   no_side_effects (one_file ''/c.json'' ''{}'' Accepts)
     (sample_engine (''return '' @ ''{}'') (one_file ''/c.json'' ''{}'' Accepts)) \<and>
   no_side_effects ((one_file ''/c.json'' ''{}'' Accepts)(''/other'' \<mapsto> Directory))
     (sample_engine (''return '' @ ''{}'')
        ((one_file ''/c.json'' ''{}'' Accepts)(''/other'' \<mapsto> Directory))) \<and>
   exit_status (config_init sample_engine env_data (one_file ''/c.json'' ''{}'' Accepts)) =
     exit_status (config_init sample_engine env_data
        ((one_file ''/c.json'' ''{}'' Accepts)(''/other'' \<mapsto> Directory))) \<and>
   events (config_init sample_engine env_data (one_file ''/c.json'' ''{}'' Accepts)) =
     events (config_init sample_engine env_data
        ((one_file ''/c.json'' ''{}'' Accepts)(''/other'' \<mapsto> Directory))) \<and>
   disk (config_init sample_engine env_data (one_file ''/c.json'' ''{}'' Accepts))
       (resolve_configPath env_data) =
     disk (config_init sample_engine env_data
        ((one_file ''/c.json'' ''{}'' Accepts)(''/other'' \<mapsto> Directory)))
       (resolve_configPath env_data) \<and>
   exit_status (config_init sample_engine env_data
        ((one_file ''/c.json'' ''{}'' Accepts)(''/other'' \<mapsto> Directory))) = Some 0"
proof -
  let ?fs1 = "one_file ''/c.json'' ''{}'' Accepts"
  let ?fs2 = "(one_file ''/c.json'' ''{}'' Accepts)(''/other'' \<mapsto> Directory)"
  have same: "?fs1 (resolve_configPath env_data) = ?fs2 (resolve_configPath env_data)"
    by (simp add: env_data_simps)
  have entry: "readFileSync ?fs1 (resolve_configPath env_data) = Inr ''{}''"
    by (simp add: env_data_simps one_file_simps del: readFileSync.simps)
  have engines: "\<forall>raw. readFileSync ?fs1 (resolve_configPath env_data) = Inr raw \<longrightarrow>
      outcome (sample_engine (''return '' @ raw) ?fs1) =
        outcome (sample_engine (''return '' @ raw) ?fs2) \<and>
      no_side_effects ?fs1 (sample_engine (''return '' @ raw) ?fs1) \<and>
      no_side_effects ?fs2 (sample_engine (''return '' @ raw) ?fs2)"
    by (simp add: sample_engine_quiet sample_engine_same [of _ ?fs1 ?fs2]
        del: readFileSync.simps)
  have first: "exit_status (config_init sample_engine env_data ?fs1) = Some 0"
    by (simp add: run_on_writable [where eng = sample_engine, OF sample_engine_parses(2)
        patch_config_empty stringify_after_data])
  from run_depends_only_on_config_entry [where ?engine1.0 = sample_engine
      and ?engine2.0 = sample_engine and ?fs1.0 = ?fs1 and ?fs2.0 = ?fs2 and env = env_data,
      OF same engines] same entry first
  show ?thesis
    by (simp add: sample_engine_quiet sample_engine_outcome del: readFileSync.simps)
qed

end
